theory Spec2Isabelle
  imports Complex_Main
begin

section \<open>PoultryPatrol: the per-frame simulation core of \<^verbatim>\<open>src/game.js\<close>\<close>

text \<open>
  The development embeds the behavioural part of \<^verbatim>\<open>game.js\<close>: the classes
  \<^verbatim>\<open>Bird\<close>, \<^verbatim>\<open>Predator\<close>, \<^verbatim>\<open>Visitor\<close> and \<^verbatim>\<open>Player\<close>, the global
  \<^verbatim>\<open>gameState\<close>, and the functions \<^verbatim>\<open>animate\<close>, \<^verbatim>\<open>toggleCoop\<close>,
  \<^verbatim>\<open>collectEggAtCrosshair\<close> and \<^verbatim>\<open>addScore\<close>.

  Conventions of the embedding.
  \<^item> JavaScript numbers that hold times, coordinates and speeds are modelled as \<^typ>\<open>real\<close>;
    counters and the score, which only ever hold integers, are \<^typ>\<open>int\<close>. Four timers
    are followed over long runs of frames below, and there the rounding of each step
    decides in which frame a threshold is met: \<^verbatim>\<open>outOfBoundsTimer\<close>, \<^verbatim>\<open>captureTimer\<close>,
    \<^verbatim>\<open>eggTimer\<close> and \<^verbatim>\<open>eggAvailableTimer\<close>. They are advanced as the source advances
    them, with the rounded addition and subtraction of IEEE doubles (\<open>fadd\<close> and \<open>fsub\<close>
    below). All other arithmetic is exact.
  \<^item> Bird objects are shared between the rosters, the predators that carry them and the
    visitor they perch on, so they live in an explicit store \<^typ>\<open>nat \<Rightarrow> 'a\<close> from object
    identities to objects; a reference to a bird is its identity, \<^verbatim>\<open>null\<close> is \<open>None\<close>.
  \<^item> Every call of \<^verbatim>\<open>Math.random()\<close>, the keyboard table \<^verbatim>\<open>keys\<close> and the clock's
    \<^verbatim>\<open>getDelta()\<close> are inputs of the frame.
  \<^item> Meshes, textures, wing and peck animation, audio and DOM updates are left out: no
    decision of the simulation reads them. The two outputs the claims speak about are
    kept as logs: the \<^verbatim>\<open>showScoreChange(points, reason)\<close> calls and the
    \<^verbatim>\<open>showGameOverModal\<close> calls.
  \<^item> Field names are the source's. Where two classes use one name, the later classes
    carry a prefix: \<open>p\<close> for \<^verbatim>\<open>Predator\<close>, \<open>v\<close> for \<^verbatim>\<open>Visitor\<close>, \<open>pl\<close> for
    \<^verbatim>\<open>Player\<close>; \<open>position\<close> stands for \<^verbatim>\<open>mesh.position\<close>.
\<close>

subsection \<open>Numbers: the addition and subtraction of IEEE doubles\<close>

text \<open>
  A JavaScript number is a binary64 value: \<open>m * 2 powi e\<close> with \<open>\<bar>m\<bar> < 2 ^ 53\<close> and
  \<open>- 1074 \<le> e\<close>. \<^verbatim>\<open>a + b\<close> and \<^verbatim>\<open>a - b\<close> are the exact result rounded to the nearest such
  value, ties going to the even \<open>m\<close>.

  \<open>binade y\<close> is the exponent of the power of two at or below \<open>y > 0\<close>, found by halving
  or doubling \<open>y\<close>, and kept between \<open>- 1022\<close> (below which the spacing of the values no
  longer shrinks) and \<open>1023\<close>. In the binade of \<open>x\<close> the values are spaced
  \<open>2 powi (binade \<bar>x\<bar> - 52)\<close> apart. Results of magnitude \<open>2 ^ 1024\<close> and above
  (\<^verbatim>\<open>Infinity\<close> in the source) are out of the reach of every timer and are not modelled.
  The operands are doubles in the source; the definitions take any real.
\<close>

fun upward :: "nat \<Rightarrow> real \<Rightarrow> int" where
  "upward 0 y = 0"
| "upward (Suc n) y = (if y < 2 then 0 else upward n (y / 2) + 1)"

fun downward :: "nat \<Rightarrow> real \<Rightarrow> int" where
  "downward 0 y = 0"
| "downward (Suc n) y = (if 1 \<le> y then 0 else downward n (y * 2) - 1)"

definition binade :: "real \<Rightarrow> int" where
  "binade y = (if 1 \<le> y then upward 1023 y else downward 1022 y)"

definition roundTiesToEven :: "real \<Rightarrow> int" where
  "roundTiesToEven y =
     (let n = \<lfloor>y\<rfloor>; r = y - of_int n in
      if r < 1 / 2 then n else if 1 / 2 < r then n + 1 else if even n then n else n + 1)"

definition binary64 :: "real \<Rightarrow> real" where
  "binary64 x =
     (let ulp = 2 powi (binade \<bar>x\<bar> - 52) in of_int (roundTiesToEven (x / ulp)) * ulp)"

text \<open>\<^verbatim>\<open>a + b\<close> and \<^verbatim>\<open>a - b\<close> on doubles.\<close>

definition fadd :: "real \<Rightarrow> real \<Rightarrow> real" where
  "fadd a b = binary64 (a + b)"

definition fsub :: "real \<Rightarrow> real \<Rightarrow> real" where
  "fsub a b = binary64 (a - b)"

subsection \<open>Vectors (the operations of \<^verbatim>\<open>THREE.Vector3\<close> the code calls)\<close>

record vec3 =
  vx :: real
  vy :: real
  vz :: real

definition Vector3 :: "real \<Rightarrow> real \<Rightarrow> real \<Rightarrow> vec3" where
  "Vector3 a b c = \<lparr>vx = a, vy = b, vz = c\<rparr>"

definition subVectors :: "vec3 \<Rightarrow> vec3 \<Rightarrow> vec3" where
  "subVectors a b = Vector3 (vx a - vx b) (vy a - vy b) (vz a - vz b)"

definition addv :: "vec3 \<Rightarrow> vec3 \<Rightarrow> vec3" where
  "addv a b = Vector3 (vx a + vx b) (vy a + vy b) (vz a + vz b)"

definition multiplyScalar :: "vec3 \<Rightarrow> real \<Rightarrow> vec3" where
  "multiplyScalar v s = Vector3 (vx v * s) (vy v * s) (vz v * s)"

definition lengthSq :: "vec3 \<Rightarrow> real" where
  "lengthSq v = vx v * vx v + vy v * vy v + vz v * vz v"

definition vlength :: "vec3 \<Rightarrow> real" where
  "vlength v = sqrt (lengthSq v)"

text \<open>\<^verbatim>\<open>normalize()\<close> is \<^verbatim>\<open>divideScalar(length() || 1)\<close>: the zero vector stays zero.\<close>

definition normalize :: "vec3 \<Rightarrow> vec3" where
  "normalize v = (let l = vlength v in multiplyScalar v (1 / (if l = 0 then 1 else l)))"

definition distanceTo :: "vec3 \<Rightarrow> vec3 \<Rightarrow> real" where
  "distanceTo a b = vlength (subVectors a b)"

subsection \<open>The classes and the global state\<close>

datatype birdType = Chicken | Duck

datatype coopVisit = Idle | Walking | Inside | Returning

record bird =
  btype :: birdType
  position :: vec3
  velocity :: vec3
  speed :: real
  wanderAngle :: real
  wanderTimer :: real
  scared :: bool
  scaredTimer :: real
  inBounds :: bool
  outOfBoundsTimer :: real
  hasEscaped :: bool
  captured :: bool
  killed :: bool
  onVisitorHead :: bool
  headOffset :: vec3
  attractedToVisitor :: bool
  visitCoopTimer :: real
  visitingCoop :: bool
  coopVisitState :: coopVisit
  coopVisitTimer :: real

type_synonym birdStore = "nat \<Rightarrow> bird"

datatype predatorType = Hawk | Dog

record predator =
  ptype :: predatorType
  pposition :: vec3
  pvelocity :: vec3
  pspeed :: real
  health :: int
  isFlying :: bool
  fleeing :: bool
  capturedBird :: "nat option"
  targetBird :: "nat option"
  captureTimer :: real
  hasScreeched :: bool
  barkTimer :: real

datatype visitorState = Entering | Wandering | Sitting | Leaving

record visitor =
  vstate :: visitorState
  vposition :: vec3
  vvelocity :: vec3
  vspeed :: real
  entryPoint :: vec3
  targetPosition :: "vec3 option"
  sitTimer :: real
  sitDuration :: real
  greetingShown :: bool
  greetingTimer :: real
  throwTimer :: real
  throwInterval :: real
  birdsOnHead :: "nat list"

record player =
  plposition :: vec3
  plvelocity :: vec3
  plspeed :: real

record cornPile =
  location :: vec3
  timer :: real

record nestBox =
  eggVisible :: bool
  collected :: bool

text \<open>
  \<^verbatim>\<open>gameState\<close>, together with the module-level timers \<^verbatim>\<open>predatorSpawnTimer\<close>,
  \<^verbatim>\<open>hawkSpawnTimer\<close> and \<^verbatim>\<open>visitorSpawnTimer\<close>, the bird store, and the two logs.
  \<open>killedCount\<close> is \<^verbatim>\<open>gameState.killed\<close>; \<open>thePlayer\<close> is \<^verbatim>\<open>gameState.player\<close>;
  \<open>theVisitor\<close> is \<^verbatim>\<open>gameState.visitor\<close>.
\<close>

record gameState =
  started :: bool
  gameTime :: real
  maxGameTime :: real
  birds :: birdStore
  chickens :: "nat list"
  ducks :: "nat list"
  predators :: "predator list"
  theVisitor :: "visitor option"
  thePlayer :: "player option"
  defeated :: int
  ranAway :: int
  killedCount :: int
  cornCharges :: int
  cornPiles :: "cornPile list"
  inCoop :: bool
  eggsAvailable :: bool
  eggTimer :: real
  eggAvailableTimer :: real
  nestBoxes :: "nestBox list"
  eggsCollected :: int
  eggsAtVisitStart :: int
  eggBaskets :: "int list"
  score :: int
  survivalTimer :: real
  consecutiveEggCollections :: int
  gameCompleted :: bool
  predatorSpawnTimer :: real
  hawkSpawnTimer :: real
  visitorSpawnTimer :: real
  scoreEvents :: "(int \<times> string) list"
  modals :: "bool list"

text \<open>The inputs of one frame: the clock's delta, the keys held, and the random draws.\<close>

record keyTable =
  key_w :: bool
  key_s :: bool
  key_a :: bool
  key_d :: bool
  key_space :: bool

record frameInput =
  delta :: real
  keys :: keyTable
  rndCoopTimer :: "nat \<Rightarrow> real"
  rndWanderAngle :: "nat \<Rightarrow> real"
  rndWanderTimer :: "nat \<Rightarrow> real"
  rndPerch :: "nat \<Rightarrow> real"
  rndDogEdge :: real
  rndDogCoord :: real
  rndDogTimer :: real
  rndHawkEdge :: real
  rndHawkCoord :: real
  rndHawkTimer :: real
  rndVisitorTimer :: real
  rndVisitorTimer2 :: real
  rndVisitorTargetX :: real
  rndVisitorTargetZ :: real

definition coopPosition :: vec3 where
  "coopPosition = Vector3 (-26) 0 (-26)"

text \<open>\<^verbatim>\<open>collidesWithCoop(x, z)\<close>\<close>

definition collidesWithCoop :: "real \<Rightarrow> real \<Rightarrow> bool" where
  "collidesWithCoop x z =
     (let coopX = vx coopPosition; coopZ = vz coopPosition; coopSize = 6.5 in
      x > coopX - coopSize \<and> x < coopX + coopSize \<and>
      z > coopZ - coopSize \<and> z < coopZ + coopSize)"

text \<open>The push-out used by birds, predators and the player after a coop collision.\<close>

definition pushFromCoop :: "vec3 \<Rightarrow> vec3" where
  "pushFromCoop pos =
     (let awayFromCoop = normalize (subVectors pos coopPosition) in
      pos\<lparr>vx := vx pos + vx awayFromCoop * 0.5, vz := vz pos + vz awayFromCoop * 0.5\<rparr>)"

subsection \<open>\<^verbatim>\<open>Bird.update(delta, player, predators)\<close>\<close>

text \<open>
  Lines 1823-1837: \<^verbatim>\<open>this.scared = false\<close>, then the loop over the predators that stops
  (\<^verbatim>\<open>break\<close>) at the first one closer than 8.
\<close>

fun scaredByPredators :: "predator list \<Rightarrow> bird \<Rightarrow> bird" where
  "scaredByPredators [] b = b"
| "scaredByPredators (p # ps) b =
     (let dist = distanceTo (position b) (pposition p) in
      if dist < 8 then
        (let away = normalize (subVectors (position b) (pposition p)) in
         b\<lparr>scared := True, scaredTimer := 2,
           velocity := multiplyScalar away (speed b * 2)\<rparr>)
      else scaredByPredators ps b)"

definition dangerCheck :: "predator list \<Rightarrow> bird \<Rightarrow> bird" where
  "dangerCheck preds b = scaredByPredators preds (b\<lparr>scared := False\<rparr>)"

text \<open>Lines 1839-1856: herded by the player while the space key is held.\<close>

definition playerScare :: "keyTable \<Rightarrow> player option \<Rightarrow> bird \<Rightarrow> bird" where
  "playerScare ks pl b =
     (case pl of
        None \<Rightarrow> b
      | Some p \<Rightarrow>
          if key_space ks then
            (let dist = distanceTo (position b) (plposition p) in
             if dist < 3 then
               (let away = normalize (subVectors (position b) (plposition p)) in
                b\<lparr>velocity := multiplyScalar away (speed b * 1.5), scaredTimer := 1\<rparr>)
             else b)
          else b)"

text \<open>Line 1859: the local \<^verbatim>\<open>attractedToVisitor\<close>.\<close>

definition attractedNow :: "visitor option \<Rightarrow> bird \<Rightarrow> bool" where
  "attractedNow vis b =
     (attractedToVisitor b \<and> (case vis of None \<Rightarrow> False | Some v \<Rightarrow> vstate v = Sitting))"

text \<open>
  Lines 1862-1874: the nearest corn pile; the accumulator is (\<^verbatim>\<open>nearestCornDist\<close>,
  \<^verbatim>\<open>nearestCorn\<close>), \<open>None\<close> standing for (\<^verbatim>\<open>Infinity\<close>, \<^verbatim>\<open>null\<close>).
\<close>

fun nearestCornLoop :: "vec3 \<Rightarrow> cornPile list \<Rightarrow> (real \<times> cornPile) option \<Rightarrow> (real \<times> cornPile) option" where
  "nearestCornLoop pos [] acc = acc"
| "nearestCornLoop pos (pile # piles) acc =
     (let dist = distanceTo pos (location pile) in
      nearestCornLoop pos piles
        (case acc of
           None \<Rightarrow> Some (dist, pile)
         | Some (nearestCornDist, nearestCorn) \<Rightarrow>
             if dist < nearestCornDist then Some (dist, pile) else acc))"

definition findNearestCorn :: "visitor option \<Rightarrow> cornPile list \<Rightarrow> bird \<Rightarrow> cornPile option" where
  "findNearestCorn vis piles b =
     (if \<not> scared b \<and> \<not> attractedNow vis b \<and> length piles > 0
      then map_option snd (nearestCornLoop (position b) piles None)
      else None)"

text \<open>Lines 1894-1929: the coop visit of a chicken.\<close>

definition coopVisiting :: "real \<Rightarrow> real \<Rightarrow> bird \<Rightarrow> bird" where
  "coopVisiting dt rnd b =
     (let b1 = b\<lparr>visitCoopTimer := visitCoopTimer b - dt\<rparr>;
          b2 = (if visitCoopTimer b1 \<le> 0 \<and> coopVisitState b1 = Idle
                then b1\<lparr>coopVisitState := Walking, visitingCoop := True\<rparr> else b1)
      in case coopVisitState b2 of
           Walking \<Rightarrow>
             (let distToCoop = distanceTo (position b2) coopPosition in
              if distToCoop > 2 then
                (let toCoop = normalize (subVectors coopPosition (position b2)) in
                 b2\<lparr>velocity := multiplyScalar toCoop (speed b2)\<rparr>)
              else b2\<lparr>coopVisitState := Inside, coopVisitTimer := 3\<rparr>)
         | Inside \<Rightarrow>
             (let b3 = b2\<lparr>velocity := multiplyScalar (velocity b2) 0.1,
                          coopVisitTimer := coopVisitTimer b2 - dt\<rparr>
              in if coopVisitTimer b3 \<le> 0 then b3\<lparr>coopVisitState := Returning\<rparr> else b3)
         | Returning \<Rightarrow>
             b2\<lparr>coopVisitState := Idle, visitingCoop := False,
                visitCoopTimer := 30 + rnd * 60\<rparr>
         | Idle \<Rightarrow> b2)"

text \<open>Lines 1931-1953: wandering, with the pull of the pond on ducks.\<close>

definition pondPos :: vec3 where
  "pondPos = Vector3 10 0 10"

definition wandering :: "real \<Rightarrow> real \<Rightarrow> real \<Rightarrow> bool \<Rightarrow> bird \<Rightarrow> bird" where
  "wandering dt rndAngle rndTimer noCorn b =
     (let b1 = b\<lparr>wanderTimer := wanderTimer b - dt\<rparr>;
          b2 = (if wanderTimer b1 \<le> 0
                then b1\<lparr>wanderAngle := rndAngle * pi * 2, wanderTimer := 2 + rndTimer * 3\<rparr>
                else b1);
          b3 = b2\<lparr>velocity := (velocity b2)\<lparr>vx := cos (wanderAngle b2) * speed b2,
                                              vz := sin (wanderAngle b2) * speed b2\<rparr>\<rparr>
      in if btype b3 = Duck \<and> noCorn then
           (let distToPond = distanceTo (position b3) pondPos in
            if distToPond > 3 then
              (let toPond = normalize (subVectors pondPos (position b3)) in
               b3\<lparr>velocity := addv (velocity b3) (multiplyScalar toPond (speed b3 * 0.3))\<rparr>)
            else b3)
         else b3)"

text \<open>Lines 1876-1954: the chain of behaviours; the first applicable one wins.\<close>

definition behave :: "frameInput \<Rightarrow> nat \<Rightarrow> visitor option \<Rightarrow> cornPile option \<Rightarrow> bird \<Rightarrow> bird" where
  "behave inp i vis nearestCorn b =
     (if scaredTimer b > 0 then b\<lparr>scaredTimer := scaredTimer b - delta inp\<rparr>
      else if attractedNow vis b then b
      else case nearestCorn of
        Some pile \<Rightarrow>
          (let distToCorn = distanceTo (position b) (location pile) in
           if distToCorn > 1 then
             (let toCorn = normalize (subVectors (location pile) (position b)) in
              b\<lparr>velocity := multiplyScalar toCorn (speed b * 1.5)\<rparr>)
           else b\<lparr>velocity := multiplyScalar (velocity b) 0.5\<rparr>)
      | None \<Rightarrow>
          if \<not> scared b then
            (let b1 = (if btype b = Chicken then coopVisiting (delta inp) (rndCoopTimer inp i) b
                       else b)
             in if \<not> visitingCoop b1
                then wandering (delta inp) (rndWanderAngle inp i) (rndWanderTimer inp i) True b1
                else b1)
          else b)"

text \<open>Lines 1956-1983: apply the velocity, leave the coop footprint, lean back inside.\<close>

definition applyVelocity :: "real \<Rightarrow> bird \<Rightarrow> bird" where
  "applyVelocity dt b =
     b\<lparr>position := (position b)\<lparr>vx := vx (position b) + vx (velocity b) * dt,
                                 vz := vz (position b) + vz (velocity b) * dt\<rparr>\<rparr>"

definition coopCollision :: "bird \<Rightarrow> bird" where
  "coopCollision b =
     (if \<not> visitingCoop b \<and> collidesWithCoop (vx (position b)) (vz (position b))
      then b\<lparr>position := pushFromCoop (position b)\<rparr> else b)"

definition boundaryAvoidance :: "bool \<Rightarrow> bird \<Rightarrow> bird" where
  "boundaryAvoidance noCorn b =
     (let boundaryDist = 25;
          distFromCenter = sqrt (vx (position b) * vx (position b) + vz (position b) * vz (position b))
      in if distFromCenter > boundaryDist \<and> \<not> scared b \<and> noCorn then
           (let toCenter = multiplyScalar
                             (normalize (Vector3 (- vx (position b)) 0 (- vz (position b))))
                             (speed b * 0.5)
            in b\<lparr>velocity := addv (velocity b) toCenter\<rparr>)
         else b)"

text \<open>
  Everything \<^verbatim>\<open>Bird.update\<close> does between the perch test and the boundary check
  (lines 1823-1983), for a bird that is not on the visitor's head.
\<close>

definition locomotion :: "frameInput \<Rightarrow> nat \<Rightarrow> player option \<Rightarrow> predator list \<Rightarrow> visitor option \<Rightarrow> cornPile list \<Rightarrow> bird \<Rightarrow> bird" where
  "locomotion inp i pl preds vis piles b =
     (let b1 = dangerCheck preds b;
          b2 = playerScare (keys inp) pl b1;
          nearestCorn = findNearestCorn vis piles b2;
          b3 = behave inp i vis nearestCorn b2;
          b4 = applyVelocity (delta inp) b3;
          b5 = coopCollision b4
      in boundaryAvoidance (nearestCorn = None) b5)"

text \<open>Lines 1985-2010: the boundary test, the out-of-bounds grace, the hard clamp.\<close>

definition insideBoundary :: "vec3 \<Rightarrow> bool" where
  "insideBoundary pos = (vx pos > -30 \<and> vx pos < 30 \<and> vz pos > -30 \<and> vz pos < 30)"

definition hardBoundary :: "bird \<Rightarrow> bird" where
  "hardBoundary b =
     b\<lparr>position := (position b)\<lparr>vx := max (-32) (min 32 (vx (position b))),
                                 vz := max (-32) (min 32 (vz (position b)))\<rparr>\<rparr>"

definition checkBoundaries :: "real \<Rightarrow> bird \<Rightarrow> bool \<times> bird" where
  "checkBoundaries dt b =
     (let b1 = b\<lparr>inBounds := insideBoundary (position b)\<rparr> in
      if \<not> inBounds b1 then
        (let b2 = b1\<lparr>outOfBoundsTimer := fadd (outOfBoundsTimer b1) dt\<rparr> in
         if outOfBoundsTimer b2 \<ge> 20 \<and> \<not> hasEscaped b2
         then (True, b2\<lparr>hasEscaped := True\<rparr>)
         else (False, hardBoundary b2))
      else (False, hardBoundary (b1\<lparr>outOfBoundsTimer := 0, hasEscaped := False\<rparr>)))"

text \<open>
  The update of one bird object. The result is the value returned (\<^verbatim>\<open>true\<close>: remove
  the bird) and the bird after the call. \<^verbatim>\<open>return true\<close> is reached exactly where
  \<^verbatim>\<open>gameState.ranAway++\<close> is executed; the caller below applies that increment.
\<close>

definition birdStep :: "frameInput \<Rightarrow> nat \<Rightarrow> player option \<Rightarrow> predator list \<Rightarrow> visitor option \<Rightarrow> cornPile list \<Rightarrow> bird \<Rightarrow> bool \<times> bird" where
  "birdStep inp i pl preds vis piles b =
     (if onVisitorHead b then (False, b)
      else checkBoundaries (delta inp) (locomotion inp i pl preds vis piles b))"

text \<open>\<^verbatim>\<open>bird.update(delta, gameState.player, gameState.predators)\<close> on the object \<open>i\<close>.\<close>

definition birdUpdate :: "frameInput \<Rightarrow> nat \<Rightarrow> gameState \<Rightarrow> bool \<times> gameState" where
  "birdUpdate inp i g =
     (let (shouldRemove, b) =
            birdStep inp i (thePlayer g) (predators g) (theVisitor g) (cornPiles g) (birds g i);
          g1 = g\<lparr>birds := (birds g)(i := b)\<rparr>
      in (shouldRemove, if shouldRemove then g1\<lparr>ranAway := ranAway g1 + 1\<rparr> else g1))"

subsection \<open>\<^verbatim>\<open>Predator.update(delta, birds, player)\<close>\<close>

text \<open>
  Lines 2353-2366: a struck predator lets go of the bird it carries and forgets the bird
  it stalks.
\<close>

definition releaseOnScare :: "predator \<Rightarrow> birdStore \<Rightarrow> predator \<times> birdStore" where
  "releaseOnScare p st =
     (let (p1, st1) =
        (case capturedBird p of
           Some cb \<Rightarrow>
             (p\<lparr>capturedBird := None, captureTimer := 0\<rparr>,
              st(cb := (st cb)\<lparr>captured := False,
                               position := (position (st cb))\<lparr>vy := 0.3\<rparr>\<rparr>))
         | None \<Rightarrow> (p, st))
      in (case targetBird p1 of
            Some t \<Rightarrow> (p1\<lparr>targetBird := None, captureTimer := 0\<rparr>, st1)
          | None \<Rightarrow> (p1, st1)))"

text \<open>
  Lines 2336-2376. The first component is \<open>True\<close> where the source returns \<^verbatim>\<open>true\<close>
  (health used up).
\<close>

definition playerStrike :: "keyTable \<Rightarrow> player option \<Rightarrow> predator \<Rightarrow> birdStore \<Rightarrow> bool \<times> predator \<times> birdStore" where
  "playerStrike ks pl p st =
     (case pl of
        None \<Rightarrow> (False, p, st)
      | Some plr \<Rightarrow>
          (let distToPlayer = distanceTo (pposition p) (plposition plr);
               scareRange = (if isFlying p then 6 else 4)
           in if distToPlayer < scareRange \<and> key_space ks then
                (let p1 = p\<lparr>fleeing := True, health := health p - 1\<rparr>;
                     (p2, st2) = releaseOnScare p1 st
                 in if health p2 \<le> 0 then (True, p2, st2)
                    else (False, if distToPlayer > 10 then p2\<lparr>fleeing := False\<rparr> else p2, st2))
              else (False, if distToPlayer > 10 then p\<lparr>fleeing := False\<rparr> else p, st)))"

text \<open>Lines 2379-2387.\<close>

definition fleeFromPlayer :: "real \<Rightarrow> player \<Rightarrow> predator \<Rightarrow> predator" where
  "fleeFromPlayer dt plr p =
     (let away = normalize (subVectors (pposition p) (plposition plr));
          p1 = p\<lparr>pvelocity := multiplyScalar away (pspeed p * 1.5)\<rparr>
      in if isFlying p1
         then p1\<lparr>pposition := (pposition p1)\<lparr>vy := vy (pposition p1) + dt * 8\<rparr>\<rparr>
         else p1)"

text \<open>\<^verbatim>\<open>getClosestEdge()\<close>\<close>

fun closestLoop :: "vec3 \<Rightarrow> vec3 list \<Rightarrow> vec3 \<times> real \<Rightarrow> vec3" where
  "closestLoop pos [] (closest, minDist) = closest"
| "closestLoop pos (e # es) (closest, minDist) =
     (let dist = distanceTo pos e in
      if dist < minDist then closestLoop pos es (e, dist)
      else closestLoop pos es (closest, minDist))"

definition getClosestEdge :: "predator \<Rightarrow> vec3" where
  "getClosestEdge p =
     (let pos = pposition p;
          north = Vector3 (vx pos) (vy pos) (-40);
          south = Vector3 (vx pos) (vy pos) 40;
          west = Vector3 (-40) (vy pos) (vz pos);
          east = Vector3 40 (vy pos) (vz pos)
      in closestLoop pos [south, west, east] (north, distanceTo pos north))"

text \<open>
  Lines 2389-2418: carrying the bird \<open>cb\<close> to the nearest edge. The first component is
  \<open>True\<close> where the source returns \<^verbatim>\<open>true\<close> (the boundary is crossed).
\<close>

definition carry :: "real \<Rightarrow> nat \<Rightarrow> predator \<Rightarrow> birdStore \<Rightarrow> bool \<times> predator \<times> birdStore" where
  "carry dt cb p st =
     (let edge = getClosestEdge p;
          direction = normalize (subVectors edge (pposition p));
          p1 = p\<lparr>pvelocity := multiplyScalar direction (pspeed p)\<rparr>;
          carryHeight = 12;
          p2 = (if isFlying p1 \<and> vy (pposition p1) < carryHeight
                then p1\<lparr>pposition := (pposition p1)\<lparr>vy := vy (pposition p1) + dt * 8\<rparr>\<rparr>
                else p1);
          st1 = st(cb := (st cb)\<lparr>position := pposition p2\<rparr>);
          outOfBounds = (vx (pposition p2) < -32 \<or> vx (pposition p2) > 32 \<or>
                         vz (pposition p2) < -32 \<or> vz (pposition p2) > 32)
      in if outOfBounds then (True, p2, st1(cb := (st1 cb)\<lparr>killed := True\<rparr>))
         else (False, p2, st1))"

text \<open>
  Lines 2421-2432: the nearest bird that is not captured; the accumulator is
  (\<^verbatim>\<open>nearestDist\<close>, \<^verbatim>\<open>nearest\<close>), \<open>None\<close> standing for (\<^verbatim>\<open>Infinity\<close>, \<^verbatim>\<open>null\<close>).
\<close>

fun nearestBirdLoop :: "vec3 \<Rightarrow> birdStore \<Rightarrow> nat list \<Rightarrow> (real \<times> nat) option \<Rightarrow> (real \<times> nat) option" where
  "nearestBirdLoop pos st [] acc = acc"
| "nearestBirdLoop pos st (i # ids) acc =
     (if \<not> captured (st i) then
        (let dist = distanceTo pos (position (st i)) in
         nearestBirdLoop pos st ids
           (case acc of
              None \<Rightarrow> Some (dist, i)
            | Some (nearestDist, nearest) \<Rightarrow>
                if dist < nearestDist then Some (dist, i) else acc))
      else nearestBirdLoop pos st ids acc)"

text \<open>Lines 2438-2457: the hawk waits on its locked target.\<close>

definition stalk :: "real \<Rightarrow> nat \<Rightarrow> predator \<Rightarrow> birdStore \<Rightarrow> predator \<times> birdStore" where
  "stalk dt nearest p st =
     (let t = (case targetBird p of None \<Rightarrow> nearest | Some tb \<Rightarrow> tb);
          p1 = p\<lparr>targetBird := Some t,
                 captureTimer := fadd (captureTimer p) dt,
                 pposition := Vector3 (vx (position (st t))) 1.5 (vz (position (st t))),
                 pvelocity := Vector3 0 0 0\<rparr>
      in if captureTimer p1 \<ge> 10 then
           (p1\<lparr>capturedBird := Some t, targetBird := None, captureTimer := 0\<rparr>,
            st(t := (st t)\<lparr>captured := True\<rparr>))
         else (p1, st))"

text \<open>Lines 2464-2496: not close enough, chase the nearest bird.\<close>

definition chase :: "real \<Rightarrow> nat \<Rightarrow> predator \<Rightarrow> birdStore \<Rightarrow> predator" where
  "chase dt nearest p st =
     (let p1 = p\<lparr>targetBird := None, captureTimer := 0\<rparr>;
          direction = normalize (subVectors (position (st nearest)) (pposition p1));
          p2 = p1\<lparr>pvelocity := multiplyScalar direction (pspeed p1)\<rparr>;
          p3 = (if \<not> isFlying p2 then
                  (let p2' = p2\<lparr>barkTimer := barkTimer p2 + dt\<rparr> in
                   if barkTimer p2' \<ge> 2 then p2'\<lparr>barkTimer := 0\<rparr> else p2')
                else p2);
          targetHeight = 1.5
      in if isFlying p3 then
           (if vy (pposition p3) > targetHeight then
              (let p4 = p3\<lparr>pposition := (pposition p3)\<lparr>vy := vy (pposition p3) - dt * 6\<rparr>\<rparr> in
               if \<not> hasScreeched p4 \<and> vy (pposition p4) < 10
               then p4\<lparr>hasScreeched := True\<rparr> else p4)
            else p3\<lparr>pposition := (pposition p3)\<lparr>vy := targetHeight\<rparr>\<rparr>)
         else p3)"

text \<open>Lines 2498-2505: a hawk with no target climbs to its cruising altitude.\<close>

definition idleClimb :: "real \<Rightarrow> predator \<Rightarrow> predator" where
  "idleClimb dt p =
     (let p1 = p\<lparr>hasScreeched := False\<rparr>; cruisingHeight = 12 in
      if vy (pposition p1) < cruisingHeight
      then p1\<lparr>pposition := (pposition p1)\<lparr>vy := vy (pposition p1) + dt * 3\<rparr>\<rparr>
      else p1)"

text \<open>Lines 2420-2506: the hunt of a predator that neither flees nor carries.\<close>

definition hunt :: "real \<Rightarrow> nat list \<Rightarrow> predator \<Rightarrow> birdStore \<Rightarrow> predator \<times> birdStore" where
  "hunt dt birdIds p st =
     (case nearestBirdLoop (pposition p) st birdIds None of
        Some (nearestDist, nearest) \<Rightarrow>
          if nearestDist < 2.0 then
            (if isFlying p then stalk dt nearest p st
             else (p\<lparr>capturedBird := Some nearest\<rparr>,
                   st(nearest := (st nearest)\<lparr>captured := True\<rparr>)))
          else (chase dt nearest p st, st)
      | None \<Rightarrow> (if isFlying p then idleClimb dt p else p, st))"

text \<open>
  Lines 2508-2542: the move, the coop footprint, and the nudges away from the player and
  from the visitor.
\<close>

definition nudgeFrom :: "vec3 \<Rightarrow> real \<Rightarrow> predator \<Rightarrow> predator" where
  "nudgeFrom other radius p =
     (if distanceTo (pposition p) other < radius then
        (let away = normalize (subVectors (pposition p) other) in
         p\<lparr>pposition := (pposition p)\<lparr>vx := vx (pposition p) + vx away * 0.5,
                                       vz := vz (pposition p) + vz away * 0.5\<rparr>\<rparr>)
      else p)"

definition settle :: "real \<Rightarrow> player option \<Rightarrow> visitor option \<Rightarrow> predator \<Rightarrow> predator" where
  "settle dt pl vis p =
     (let p1 = p\<lparr>pposition := (pposition p)\<lparr>vx := vx (pposition p) + vx (pvelocity p) * dt,
                                            vz := vz (pposition p) + vz (pvelocity p) * dt\<rparr>\<rparr>;
          p2 = (if \<not> isFlying p1 \<and> collidesWithCoop (vx (pposition p1)) (vz (pposition p1))
                then p1\<lparr>pposition := pushFromCoop (pposition p1)\<rparr> else p1);
          p3 = (case pl of
                  Some plr \<Rightarrow> if \<not> fleeing p2 then nudgeFrom (plposition plr) 2 p2 else p2
                | None \<Rightarrow> p2)
      in case vis of
           Some v \<Rightarrow> if \<not> fleeing p3 then nudgeFrom (vposition v) 3 p3 else p3
         | None \<Rightarrow> p3)"

text \<open>
  The update of one predator. The result is the value returned (\<^verbatim>\<open>true\<close>: remove
  the predator), the predator and the bird store after the call.
\<close>

definition predatorUpdate :: "frameInput \<Rightarrow> nat list \<Rightarrow> player option \<Rightarrow> visitor option \<Rightarrow> predator \<Rightarrow> birdStore \<Rightarrow> bool \<times> predator \<times> birdStore" where
  "predatorUpdate inp birdIds pl vis p st =
     (let (struckOut, p1, st1) = playerStrike (keys inp) pl p st in
      if struckOut then (True, p1, st1)
      else
        (case (if fleeing p1 then pl else None) of
           Some plr \<Rightarrow> (False, settle (delta inp) pl vis (fleeFromPlayer (delta inp) plr p1), st1)
         | None \<Rightarrow>
             (case capturedBird p1 of
                Some cb \<Rightarrow>
                  (let (crossed, p2, st2) = carry (delta inp) cb p1 st1 in
                   if crossed then (True, p2, st2)
                   else (False, settle (delta inp) pl vis p2, st2))
              | None \<Rightarrow>
                  (let (p2, st2) = hunt (delta inp) birdIds p1 st1 in
                   (False, settle (delta inp) pl vis p2, st2)))))"

text \<open>The constructor \<^verbatim>\<open>new Predator(type)\<close>: spawn on a random edge.\<close>

definition spawnPosition :: "real \<Rightarrow> real \<Rightarrow> real \<Rightarrow> vec3" where
  "spawnPosition rndEdge rndCoord height =
     (let edge = \<lfloor>rndEdge * 4\<rfloor> in
      if edge = 0 then Vector3 (rndCoord * 60 - 30) height (-35)
      else if edge = 1 then Vector3 (rndCoord * 60 - 30) height 35
      else if edge = 2 then Vector3 (-35) height (rndCoord * 60 - 30)
      else if edge = 3 then Vector3 35 height (rndCoord * 60 - 30)
      else Vector3 0 0 0)"

definition newPredator :: "predatorType \<Rightarrow> real \<Rightarrow> real \<Rightarrow> predator" where
  "newPredator ty rndEdge rndCoord =
     \<lparr>ptype = ty,
      pposition = spawnPosition rndEdge rndCoord (if ty = Hawk then 15 else 0),
      pvelocity = Vector3 0 0 0,
      pspeed = (if ty = Hawk then 6 else 4),
      health = (if ty = Hawk then 2 else 3),
      isFlying = (ty = Hawk),
      fleeing = False,
      capturedBird = None,
      targetBird = None,
      captureTimer = 0,
      hasScreeched = False,
      barkTimer = 0\<rparr>"

subsection \<open>\<^verbatim>\<open>Visitor.update(delta, birds, player)\<close>\<close>

text \<open>Lines 2889-2923: one round of the \<^verbatim>\<open>birds.forEach\<close> of \<^verbatim>\<open>attractBirds\<close>.\<close>

definition attractOne :: "vec3 \<Rightarrow> real \<Rightarrow> real \<Rightarrow> nat \<Rightarrow> visitor \<Rightarrow> birdStore \<Rightarrow> visitor \<times> birdStore" where
  "attractOne gatherPosition attractionRange rnd i v st =
     (let b = st i; dist = distanceTo (position b) gatherPosition in
      if dist < attractionRange \<and> \<not> captured b \<and> \<not> onVisitorHead b then
        (let b1 = (if dist > 1.5 then
                     (let toLiz = normalize (subVectors gatherPosition (position b)) in
                      b\<lparr>velocity := multiplyScalar toLiz (speed b * 2),
                        attractedToVisitor := True\<rparr>)
                   else b\<lparr>velocity := multiplyScalar (velocity b) 0.3,
                          attractedToVisitor := True\<rparr>)
         in if dist < 2 \<and> rnd < 0.02 \<and> length (birdsOnHead v) < 3 then
              (let v1 = v\<lparr>birdsOnHead := birdsOnHead v @ [i]\<rparr>;
                   offset = real (length (birdsOnHead v1)) - 1
               in (v1, st(i := b1\<lparr>onVisitorHead := True,
                                  headOffset := Vector3 ((offset - 1) * 0.4) 0.7
                                                        ((offset - 1) * 0.2)\<rparr>)))
            else (v, st(i := b1)))
      else if attractedToVisitor b \<and> dist \<ge> attractionRange
           then (v, st(i := b\<lparr>attractedToVisitor := False\<rparr>))
           else (v, st))"

fun attractLoop :: "vec3 \<Rightarrow> real \<Rightarrow> (nat \<Rightarrow> real) \<Rightarrow> nat list \<Rightarrow> visitor \<Rightarrow> birdStore \<Rightarrow> visitor \<times> birdStore" where
  "attractLoop gatherPosition attractionRange rnd [] v st = (v, st)"
| "attractLoop gatherPosition attractionRange rnd (i # ids) v st =
     (let (v1, st1) = attractOne gatherPosition attractionRange (rnd i) i v st in
      attractLoop gatherPosition attractionRange rnd ids v1 st1)"

text \<open>Lines 2925-2935: the birds on the head ride along.\<close>

fun rideOnHead :: "vec3 \<Rightarrow> nat list \<Rightarrow> birdStore \<Rightarrow> birdStore" where
  "rideOnHead headPosition [] st = st"
| "rideOnHead headPosition (i # ids) st =
     rideOnHead headPosition ids
       (st(i := (st i)\<lparr>position := addv headPosition (headOffset (st i)),
                        velocity := Vector3 0 0 0\<rparr>))"

text \<open>\<^verbatim>\<open>attractBirds(birds, delta)\<close>\<close>

definition attractBirds :: "(nat \<Rightarrow> real) \<Rightarrow> nat list \<Rightarrow> visitor \<Rightarrow> birdStore \<Rightarrow> visitor \<times> birdStore" where
  "attractBirds rnd birdIds v st =
     (let attractionRange = (if vstate v = Sitting then 20 else 12);
          headYOffset = (if vstate v = Sitting then 2.0 else 3.2);
          headPosition = Vector3 (vx (vposition v)) (vy (vposition v) + headYOffset)
                                 (vz (vposition v));
          gatherPosition = Vector3 (vx (vposition v)) (vy (vposition v))
                                   (vz (vposition v) + (if vstate v = Sitting then 1.0 else 0.5));
          (v1, st1) = attractLoop gatherPosition attractionRange rnd birdIds v st
      in (v1, rideOnHead headPosition (birdsOnHead v1) st1))"

text \<open>Lines 2831-2839: the perched birds jump off.\<close>

fun jumpOff :: "nat list \<Rightarrow> birdStore \<Rightarrow> birdStore" where
  "jumpOff [] st = st"
| "jumpOff (i # ids) st =
     jumpOff ids
       (st(i := (st i)\<lparr>onVisitorHead := False, attractedToVisitor := False,
                        position := (position (st i))\<lparr>vy := 0.3\<rparr>,
                        velocity := Vector3 0 0 0, wanderTimer := 0\<rparr>))"

definition walkTowards :: "real \<Rightarrow> vec3 \<Rightarrow> visitor \<Rightarrow> visitor" where
  "walkTowards dt goal v =
     (let direction = normalize (subVectors goal (vposition v));
          v1 = v\<lparr>vvelocity := multiplyScalar direction (vspeed v)\<rparr>
      in v1\<lparr>vposition := (vposition v1)\<lparr>vx := vx (vposition v1) + vx (vvelocity v1) * dt,
                                          vz := vz (vposition v1) + vz (vvelocity v1) * dt\<rparr>\<rparr>)"

definition visitorUpdate :: "frameInput \<Rightarrow> nat list \<Rightarrow> player option \<Rightarrow> visitor \<Rightarrow> birdStore \<Rightarrow> bool \<times> visitor \<times> birdStore" where
  "visitorUpdate inp birdIds pl v0 st =
     (let dt = delta inp;
          v = (if \<not> greetingShown v0 \<and> pl \<noteq> None then
                 (let v' = v0\<lparr>greetingTimer := greetingTimer v0 + dt\<rparr> in
                  if greetingTimer v' \<ge> 3 then v'\<lparr>greetingShown := True\<rparr> else v')
               else v0)
      in case vstate v of
           Entering \<Rightarrow>
             (if \<not> vx (vposition v) < 25 then
                (let v1 = v\<lparr>vvelocity := Vector3 (- vspeed v) 0 0\<rparr> in
                 (False,
                  v1\<lparr>vposition := (vposition v1)\<lparr>vx := vx (vposition v1) + vx (vvelocity v1) * dt\<rparr>\<rparr>,
                  st))
              else
                (False,
                 v\<lparr>targetPosition := Some (Vector3 (-10 + rndVisitorTargetX inp * 20) 0
                                                    (-10 + rndVisitorTargetZ inp * 20)),
                   vstate := Wandering\<rparr>,
                 st))
         | Wandering \<Rightarrow>
             (case targetPosition v of
                None \<Rightarrow> (False, v\<lparr>vstate := Leaving\<rparr>, st)
              | Some target \<Rightarrow>
                  (let distToTarget = distanceTo (vposition v) target in
                   if distToTarget > 1 then (False, walkTowards dt target v, st)
                   else (False, v\<lparr>vstate := Sitting, vvelocity := Vector3 0 0 0, sitTimer := 0\<rparr>, st)))
         | Sitting \<Rightarrow>
             (let v1 = v\<lparr>sitTimer := sitTimer v + dt, throwTimer := throwTimer v + dt\<rparr>;
                  v2 = (if throwTimer v1 \<ge> throwInterval v1 then v1\<lparr>throwTimer := 0\<rparr> else v1);
                  (v3, st3) = attractBirds (rndPerch inp) birdIds v2 st
              in if sitTimer v3 \<ge> sitDuration v3 then
                   (False, v3\<lparr>vstate := Leaving, birdsOnHead := []\<rparr>, jumpOff (birdsOnHead v3) st3)
                 else (False, v3, st3))
         | Leaving \<Rightarrow>
             (if vx (vposition v) > 33 then
                (let v1 = v\<lparr>vvelocity := Vector3 (vspeed v) 0 0\<rparr>;
                     v2 = v1\<lparr>vposition := (vposition v1)\<lparr>vx := vx (vposition v1) + vx (vvelocity v1) * dt\<rparr>\<rparr>
                 in (vx (vposition v2) > 40, v2, st))
              else (False, walkTowards dt (entryPoint v) v, st)))"

text \<open>The constructor \<^verbatim>\<open>new Visitor()\<close>.\<close>

definition newVisitor :: visitor where
  "newVisitor =
     \<lparr>vstate = Entering, vposition = Vector3 35 0 0, vvelocity = Vector3 0 0 0, vspeed = 3,
      entryPoint = Vector3 35 0 0, targetPosition = None, sitTimer = 0, sitDuration = 20,
      greetingShown = False, greetingTimer = 0, throwTimer = 0, throwInterval = 3,
      birdsOnHead = []\<rparr>"

subsection \<open>\<^verbatim>\<open>Player.update(delta, keys)\<close> and \<^verbatim>\<open>Player.throwCorn()\<close>\<close>

definition playerUpdate :: "real \<Rightarrow> keyTable \<Rightarrow> player \<Rightarrow> player" where
  "playerUpdate dt ks plr =
     (let direction = Vector3 ((if key_d ks then 1 else 0) - (if key_a ks then 1 else 0)) 0
                              ((if key_s ks then 1 else 0) - (if key_w ks then 1 else 0));
          vel = (if vlength direction > 0 then
                   (plvelocity plr)\<lparr>vx := vx (normalize direction) * plspeed plr,
                                     vz := vz (normalize direction) * plspeed plr\<rparr>
                 else (plvelocity plr)\<lparr>vx := vx (plvelocity plr) * 0.9,
                                        vz := vz (plvelocity plr) * 0.9\<rparr>);
          pos1 = (plposition plr)\<lparr>vx := vx (plposition plr) + vx vel * dt,
                                   vz := vz (plposition plr) + vz vel * dt\<rparr>;
          pos2 = (if collidesWithCoop (vx pos1) (vz pos1) then pushFromCoop pos1 else pos1)
      in plr\<lparr>plvelocity := vel,
             plposition := pos2\<lparr>vx := max (-30) (min 30 (vx pos2)),
                                 vz := max (-30) (min 30 (vz pos2))\<rparr>\<rparr>)"

definition throwCorn :: "gameState \<Rightarrow> gameState" where
  "throwCorn g =
     (case thePlayer g of
        None \<Rightarrow> g
      | Some plr \<Rightarrow>
          if cornCharges g > 0 then
            g\<lparr>cornCharges := cornCharges g - 1,
              cornPiles := cornPiles g @ [\<lparr>location = plposition plr, timer = 13\<rparr>]\<rparr>
          else g)"

subsection \<open>Scoring, the coop and the eggs\<close>

text \<open>
  \<^verbatim>\<open>addScore(points, reason)\<close>: the only assignment to \<^verbatim>\<open>gameState.score\<close> in the
  source; the call of \<^verbatim>\<open>showScoreChange(points, reason)\<close> is recorded in \<open>scoreEvents\<close>.
\<close>

definition addScore :: "int \<Rightarrow> string \<Rightarrow> gameState \<Rightarrow> gameState" where
  "addScore points reason g =
     g\<lparr>score := score g + points, scoreEvents := scoreEvents g @ [(points, reason)]\<rparr>"

definition showEggs :: "nestBox list \<Rightarrow> nestBox list" where
  "showEggs nests = map (\<lambda>nest. nest\<lparr>eggVisible := \<not> collected nest\<rparr>) nests"

text \<open>\<^verbatim>\<open>toggleCoop()\<close>\<close>

definition toggleCoop :: "gameState \<Rightarrow> gameState" where
  "toggleCoop g0 =
     (let g = g0\<lparr>inCoop := \<not> inCoop g0\<rparr> in
      if inCoop g then
        (let g1 = g\<lparr>eggsAtVisitStart := eggsCollected g\<rparr> in
         if eggsAvailable g1 then g1\<lparr>nestBoxes := showEggs (nestBoxes g1)\<rparr> else g1)
      else
        (let eggsThisSession = eggsCollected g - eggsAtVisitStart g in
         if eggsThisSession > 0 then
           (let g1 = g\<lparr>eggBaskets := eggBaskets g @ [eggsThisSession]\<rparr> in
            if eggsThisSession = 8 then
              (let g2 = addScore 50 ''Full basket bonus!'' g1 in
               g2\<lparr>consecutiveEggCollections := consecutiveEggCollections g2 + 1\<rparr>)
            else g1\<lparr>consecutiveEggCollections := 0\<rparr>)
         else g))"

text \<open>
  \<^verbatim>\<open>collectEggAtCrosshair()\<close>. The ray is cast against the eggs that are visible and not
  collected; \<open>aim\<close> is the nest whose egg the ray meets first, if any.
\<close>

definition collectEggAtCrosshair :: "nat option \<Rightarrow> gameState \<Rightarrow> gameState" where
  "collectEggAtCrosshair aim g =
     (case aim of
        None \<Rightarrow> g
      | Some k \<Rightarrow>
          if k < length (nestBoxes g) \<and> eggVisible (nestBoxes g ! k) \<and> \<not> collected (nestBoxes g ! k)
          then addScore 10 ''Egg collected''
                 (g\<lparr>nestBoxes := (nestBoxes g)[k := (nestBoxes g ! k)\<lparr>collected := True,
                                                                      eggVisible := False\<rparr>],
                    eggsCollected := eggsCollected g + 1\<rparr>)
          else g)"

text \<open>Lines 3947-3986 of \<^verbatim>\<open>animate\<close>: the egg timers.\<close>

definition eggCycle :: "real \<Rightarrow> gameState \<Rightarrow> gameState" where
  "eggCycle dt g =
     (let g1 = (if \<not> eggsAvailable g then
                  (let g' = g\<lparr>eggTimer := fsub (eggTimer g) dt\<rparr> in
                   if eggTimer g' \<le> 0 then
                     g'\<lparr>eggsAvailable := True, eggAvailableTimer := 60,
                        nestBoxes := (if inCoop g' then showEggs (nestBoxes g') else nestBoxes g')\<rparr>
                   else g')
                else g)
      in if eggsAvailable g1 then
           (let g2 = g1\<lparr>eggAvailableTimer := fsub (eggAvailableTimer g1) dt\<rparr> in
            if eggAvailableTimer g2 \<le> 0 then
              g2\<lparr>eggsAvailable := False, eggTimer := 60,
                 nestBoxes := map (\<lambda>nest. nest\<lparr>eggVisible := False, collected := False\<rparr>)
                                  (nestBoxes g2)\<rparr>
            else g2)
         else g1)"

subsection \<open>\<^verbatim>\<open>animate()\<close>\<close>

text \<open>Lines 3751-3759.\<close>

definition survivalBonus :: "real \<Rightarrow> gameState \<Rightarrow> gameState" where
  "survivalBonus dt g =
     (let g1 = g\<lparr>survivalTimer := survivalTimer g + dt\<rparr> in
      if survivalTimer g1 \<ge> 60 then
        (let g2 = g1\<lparr>survivalTimer := 0\<rparr>;
             totalBirds = length (chickens g2) + length (ducks g2)
         in if totalBirds = 13 then addScore 25 ''All birds safe for 1 minute!'' g2 else g2)
      else g1)"

text \<open>Lines 3762-3805: the level is complete.\<close>

definition levelComplete :: "gameState \<Rightarrow> gameState" where
  "levelComplete g =
     (let g1 = g\<lparr>gameCompleted := True, started := False\<rparr>;
          totalBirds = length (chickens g1) + length (ducks g1);
          finalBonus = 500 + (if totalBirds = 13 then 200 else 0)
                           + (if eggsCollected g1 \<ge> 10 then 100 else 0)
                           + (if killedCount g1 = 0 then 200 else 0);
          g2 = addScore finalBonus ''Level complete!'' g1
      in g2\<lparr>modals := modals g2 @ [True]\<rparr>)"

text \<open>Lines 3890-3915: no bird is left.\<close>

definition gameOver :: "gameState \<Rightarrow> gameState" where
  "gameOver g =
     (let g1 = g\<lparr>gameCompleted := True, started := False\<rparr> in
      g1\<lparr>modals := modals g1 @ [False]\<rparr>)"

text \<open>\<^verbatim>\<open>xs.splice(i, 1)\<close>\<close>

definition splice1 :: "nat \<Rightarrow> 'a list \<Rightarrow> 'a list" where
  "splice1 i xs = take i xs @ drop (Suc i) xs"

text \<open>Lines 3860-3867: the bookkeeping for a bird taken off its roster.\<close>

definition birdRemoved :: "bool \<Rightarrow> nat \<Rightarrow> gameState \<Rightarrow> gameState" where
  "birdRemoved shouldRemove b g =
     (if killed (birds g b) then
        addScore (-100) ''Bird killed'' (g\<lparr>killedCount := killedCount g + 1\<rparr>)
      else if shouldRemove then addScore (-50) ''Bird ran away'' g
      else g)"

text \<open>
  Lines 3853-3869 and 3871-3887: the rosters are walked from the last index down to 0;
  \<open>Suc i\<close> is the number of entries still to visit, \<open>i\<close> the index visited.
\<close>

fun chickensLoop :: "frameInput \<Rightarrow> nat \<Rightarrow> gameState \<Rightarrow> gameState" where
  "chickensLoop inp 0 g = g"
| "chickensLoop inp (Suc i) g =
     (let b = chickens g ! i;
          (shouldRemove, g1) = birdUpdate inp b g
      in chickensLoop inp i
           (if shouldRemove \<or> killed (birds g1 b)
            then birdRemoved shouldRemove b (g1\<lparr>chickens := splice1 i (chickens g1)\<rparr>)
            else g1))"

fun ducksLoop :: "frameInput \<Rightarrow> nat \<Rightarrow> gameState \<Rightarrow> gameState" where
  "ducksLoop inp 0 g = g"
| "ducksLoop inp (Suc i) g =
     (let b = ducks g ! i;
          (shouldRemove, g1) = birdUpdate inp b g
      in ducksLoop inp i
           (if shouldRemove \<or> killed (birds g1 b)
            then birdRemoved shouldRemove b (g1\<lparr>ducks := splice1 i (ducks g1)\<rparr>)
            else g1))"

text \<open>Lines 3807-3850, without the camera.\<close>

definition updatePlayer :: "frameInput \<Rightarrow> gameState \<Rightarrow> gameState" where
  "updatePlayer inp g =
     (case thePlayer g of
        None \<Rightarrow> g
      | Some plr \<Rightarrow>
          if \<not> inCoop g then g\<lparr>thePlayer := Some (playerUpdate (delta inp) (keys inp) plr)\<rparr>
          else g)"

text \<open>
  Lines 3917-3926: every pile ages; the expired ones are spliced out, the others keep
  their order.
\<close>

definition updateCornPiles :: "real \<Rightarrow> gameState \<Rightarrow> gameState" where
  "updateCornPiles dt g =
     g\<lparr>cornPiles := filter (\<lambda>pile. timer pile > 0)
                           (map (\<lambda>pile. pile\<lparr>timer := timer pile - dt\<rparr>) (cornPiles g))\<rparr>"

text \<open>Lines 4046-4056: the spawn timers.\<close>

definition spawnPredators :: "frameInput \<Rightarrow> gameState \<Rightarrow> gameState" where
  "spawnPredators inp g =
     (let g1 = g\<lparr>predatorSpawnTimer := predatorSpawnTimer g - delta inp\<rparr>;
          g2 = (if predatorSpawnTimer g1 \<le> 0 then
                  g1\<lparr>predators := predators g1 @ [newPredator Dog (rndDogEdge inp) (rndDogCoord inp)],
                     predatorSpawnTimer := 20 + rndDogTimer inp * 10\<rparr>
                else g1);
          g3 = g2\<lparr>hawkSpawnTimer := hawkSpawnTimer g2 - delta inp\<rparr>
      in if hawkSpawnTimer g3 \<le> 0 then
           g3\<lparr>predators := predators g3 @ [newPredator Hawk (rndHawkEdge inp) (rndHawkCoord inp)],
              hawkSpawnTimer := 30 + rndHawkTimer inp * 15\<rparr>
         else g3)"

text \<open>
  Lines 4058-4068: the predators are walked from the last index down to 0. Whenever
  \<^verbatim>\<open>update\<close> returns \<^verbatim>\<open>true\<close> the predator is spliced out, \<^verbatim>\<open>gameState.defeated\<close> is
  incremented and \<^verbatim>\<open>addScore(20, 'Predator scared away')\<close> is called.
\<close>

fun predatorsLoop :: "frameInput \<Rightarrow> nat \<Rightarrow> gameState \<Rightarrow> gameState" where
  "predatorsLoop inp 0 g = g"
| "predatorsLoop inp (Suc i) g =
     (let allBirds = chickens g @ ducks g;
          (shouldRemove, p, st) =
             predatorUpdate inp allBirds (thePlayer g) (theVisitor g) (predators g ! i) (birds g);
          g1 = g\<lparr>birds := st, predators := (predators g)[i := p]\<rparr>
      in predatorsLoop inp i
           (if shouldRemove then
              addScore 20 ''Predator scared away''
                (g1\<lparr>predators := splice1 i (predators g1), defeated := defeated g1 + 1\<rparr>)
            else g1))"

definition updatePredators :: "frameInput \<Rightarrow> gameState \<Rightarrow> gameState" where
  "updatePredators inp g =
     (let g1 = spawnPredators inp g in predatorsLoop inp (length (predators g1)) g1)"

text \<open>Lines 4070-4096: the visitor.\<close>

definition updateVisitor :: "frameInput \<Rightarrow> gameState \<Rightarrow> gameState" where
  "updateVisitor inp g =
     (let g1 = g\<lparr>visitorSpawnTimer := visitorSpawnTimer g - delta inp\<rparr>;
          g2 = (if visitorSpawnTimer g1 \<le> 0 \<and> theVisitor g1 = None then
                  g1\<lparr>theVisitor := Some newVisitor,
                     visitorSpawnTimer := 180 + rndVisitorTimer inp * 120\<rparr>
                else g1)
      in case theVisitor g2 of
           None \<Rightarrow> g2
         | Some v \<Rightarrow>
             (let allBirds = chickens g2 @ ducks g2;
                  (shouldRemove, v1, st) = visitorUpdate inp allBirds (thePlayer g2) v (birds g2);
                  g3 = g2\<lparr>birds := st, theVisitor := Some v1\<rparr>
              in if shouldRemove then
                   g3\<lparr>theVisitor := None, visitorSpawnTimer := 180 + rndVisitorTimer2 inp * 120\<rparr>
                 else g3))"

text \<open>Lines 3748-3759: the clock and the survival bonus.\<close>

definition tick :: "frameInput \<Rightarrow> gameState \<Rightarrow> gameState" where
  "tick inp g = survivalBonus (delta inp) (g\<lparr>gameTime := gameTime g + delta inp\<rparr>)"

text \<open>Lines 3807-3887: the player, then the chickens, then the ducks.\<close>

definition updateBirds :: "frameInput \<Rightarrow> gameState \<Rightarrow> gameState" where
  "updateBirds inp g =
     (let g3 = updatePlayer inp g;
          g4 = chickensLoop inp (length (chickens g3)) g3
      in ducksLoop inp (length (ducks g4)) g4)"

text \<open>Lines 3917-4096: corn, eggs, predators, visitor.\<close>

definition updateWorld :: "frameInput \<Rightarrow> gameState \<Rightarrow> gameState" where
  "updateWorld inp g =
     updateVisitor inp
       (updatePredators inp (eggCycle (delta inp) (updateCornPiles (delta inp) g)))"

text \<open>One call of \<^verbatim>\<open>animate()\<close>, that is, one frame.\<close>

definition animate :: "frameInput \<Rightarrow> gameState \<Rightarrow> gameState" where
  "animate inp g =
     (if \<not> started g then g
      else
        (let g2 = tick inp g in
         if gameTime g2 \<ge> maxGameTime g2 \<and> \<not> gameCompleted g2 then levelComplete g2
         else
           (let g5 = updateBirds inp g2 in
            if chickens g5 = [] \<and> ducks g5 = [] \<and> \<not> gameCompleted g5 then gameOver g5
            else updateWorld inp g5)))"

subsection \<open>The session: the initial state and the event handlers\<close>

text \<open>The constructor \<^verbatim>\<open>new Bird(type, startX, startZ)\<close>.\<close>

definition newBird :: "birdType \<Rightarrow> real \<Rightarrow> real \<Rightarrow> real \<Rightarrow> real \<Rightarrow> bird" where
  "newBird ty startX startZ rndAngle rndCoop =
     \<lparr>btype = ty, position = Vector3 startX 0.45 startZ, velocity = Vector3 0 0 0, speed = 2,
      wanderAngle = rndAngle * pi * 2, wanderTimer = 0, scared = False, scaredTimer = 0,
      inBounds = True, outOfBoundsTimer = 0, hasEscaped = False, captured = False,
      killed = False, onVisitorHead = False, headOffset = Vector3 0 0 0,
      attractedToVisitor = False,
      visitCoopTimer = (if ty = Chicken then 30 + rndCoop * 60 else 999999),
      visitingCoop = False, coopVisitState = Idle, coopVisitTimer = 0\<rparr>"

text \<open>
  The literal \<^verbatim>\<open>gameState = {...}\<close> with the eight nest boxes pushed at load time;
  \<open>minutes\<close> is \<^verbatim>\<open>gameTimeMinutes\<close> and \<open>rnd\<close> the draw for the first visit.
\<close>

definition initialState :: "real \<Rightarrow> real \<Rightarrow> gameState" where
  "initialState minutes rnd =
     \<lparr>started = False, gameTime = 0, maxGameTime = minutes * 60,
      birds = (\<lambda>i. newBird Duck 0 0 0 0), chickens = [], ducks = [], predators = [],
      theVisitor = None, thePlayer = None, defeated = 0, ranAway = 0, killedCount = 0,
      cornCharges = 5, cornPiles = [], inCoop = False, eggsAvailable = False, eggTimer = 60,
      eggAvailableTimer = 0,
      nestBoxes = replicate 8 \<lparr>eggVisible = False, collected = False\<rparr>,
      eggsCollected = 0, eggsAtVisitStart = 0, eggBaskets = [], score = 0, survivalTimer = 0,
      consecutiveEggCollections = 0, gameCompleted = False, predatorSpawnTimer = 15,
      hawkSpawnTimer = 25, visitorSpawnTimer = 180 + rnd * 120, scoreEvents = [], modals = []\<rparr>"

text \<open>
  The click on the start button: the player, eight chickens and five ducks are created.
  \<open>rx\<close>, \<open>rz\<close>, \<open>ra\<close>, \<open>rc\<close> give the draws of each bird's constructor call.
\<close>

definition startGame :: "(nat \<Rightarrow> real) \<Rightarrow> (nat \<Rightarrow> real) \<Rightarrow> (nat \<Rightarrow> real) \<Rightarrow> (nat \<Rightarrow> real) \<Rightarrow> gameState \<Rightarrow> gameState" where
  "startGame rx rz ra rc g =
     (let n = length (chickens g) + length (ducks g);
          mk = (\<lambda>ty i. newBird ty (-25 + rx i * 6) (-25 + rz i * 6) (ra i) (rc i))
      in g\<lparr>started := True,
           thePlayer := Some \<lparr>plposition = Vector3 0 0 0, plvelocity = Vector3 0 0 0, plspeed = 8\<rparr>,
           birds := (\<lambda>i. if n \<le> i \<and> i < n + 8 then mk Chicken i
                          else if n + 8 \<le> i \<and> i < n + 13 then mk Duck i
                          else birds g i),
           chickens := chickens g @ [n ..< n + 8],
           ducks := ducks g @ [n + 8 ..< n + 13]\<rparr>)"

text \<open>The \<^verbatim>\<open>keydown\<close> handler for the keys E, F and C, and the click handler.\<close>

definition doorPos :: vec3 where
  "doorPos = Vector3 (vx coopPosition) 0 (vz coopPosition + 6.5)"

definition pressE :: "gameState \<Rightarrow> gameState" where
  "pressE g =
     (case thePlayer g of
        None \<Rightarrow> g
      | Some plr \<Rightarrow>
          if started g then
            (if inCoop g then toggleCoop g
             else if distanceTo (plposition plr) doorPos < 4 then toggleCoop g
             else g)
          else g)"

definition pressF :: "nat option \<Rightarrow> gameState \<Rightarrow> gameState" where
  "pressF aim g = (if inCoop g \<and> eggsAvailable g then collectEggAtCrosshair aim g else g)"

definition pressC :: "gameState \<Rightarrow> gameState" where
  "pressC g = (if started g \<and> thePlayer g \<noteq> None \<and> \<not> inCoop g then throwCorn g else g)"

definition click :: "bool \<Rightarrow> nat option \<Rightarrow> gameState \<Rightarrow> gameState" where
  "click isPointerLocked aim g =
     (if \<not> started g then g
      else if \<not> isPointerLocked \<and> \<not> inCoop g then g
      else if inCoop g \<and> eggsAvailable g then collectEggAtCrosshair aim g
      else g)"

datatype event =
    Frame frameInput
  | StartButton "nat \<Rightarrow> real" "nat \<Rightarrow> real" "nat \<Rightarrow> real" "nat \<Rightarrow> real"
  | KeyE
  | KeyF "nat option"
  | KeyC
  | Click bool "nat option"

fun handle :: "event \<Rightarrow> gameState \<Rightarrow> gameState" where
  "handle (Frame inp) g = animate inp g"
| "handle (StartButton rx rz ra rc) g = startGame rx rz ra rc g"
| "handle KeyE g = pressE g"
| "handle (KeyF aim) g = pressF aim g"
| "handle KeyC g = pressC g"
| "handle (Click locked aim) g = click locked aim g"

text \<open>A session: the events in the order they happen.\<close>

fun session :: "event list \<Rightarrow> gameState \<Rightarrow> gameState" where
  "session [] g = g"
| "session (e # es) g = session es (handle e g)"

section \<open>Vocabulary of the statements\<close>

text \<open>
  \<open>logsScore g g'\<close>: between \<open>g\<close> and \<open>g'\<close> the log of score events only grew, and the
  score moved by the sum of the deltas of the new events. \<open>quiet g g'\<close>: in addition the
  session did not end, no modal was shown and no completion bonus was given.
\<close>

definition quiet :: "gameState \<Rightarrow> gameState \<Rightarrow> bool" where
  "quiet g g' =
     (started g' = started g \<and> gameCompleted g' = gameCompleted g \<and> modals g' = modals g \<and>
      maxGameTime g' = maxGameTime g \<and>
      (\<exists>es. scoreEvents g' = scoreEvents g @ es \<and> score g' = score g + sum_list (map fst es) \<and>
            filter (\<lambda>e. snd e = ''Level complete!'') es = []))"

definition logsScore :: "gameState \<Rightarrow> gameState \<Rightarrow> bool" where
  "logsScore g g' =
     (\<exists>es. scoreEvents g' = scoreEvents g @ es \<and> score g' = score g + sum_list (map fst es))"

definition completionBonuses :: "gameState \<Rightarrow> (int \<times> string) list" where
  "completionBonuses g = filter (\<lambda>e. snd e = ''Level complete!'') (scoreEvents g)"

text \<open>
  The scare key is held and the player is within the predator's scare range (the test of
  line 2341).
\<close>

definition strikes :: "keyTable \<Rightarrow> player option \<Rightarrow> predator \<Rightarrow> bool" where
  "strikes ks pl p =
     (key_space ks \<and>
      (case pl of
         None \<Rightarrow> False
       | Some plr \<Rightarrow> distanceTo (pposition p) (plposition plr) < (if isFlying p then 6 else 4)))"

text \<open>
  One predator over consecutive frames. A frame gives the arguments of the predator's
  \<^verbatim>\<open>update\<close> and, as \<open>world\<close>, what the rest of the frame loop has done to the bird
  objects since the predator's previous update; the run ends when \<^verbatim>\<open>update\<close> returns
  \<^verbatim>\<open>true\<close>, since the predator is then taken off the roster.
\<close>

type_synonym predatorFrame =
  "frameInput \<times> nat list \<times> player option \<times> visitor option \<times> (birdStore \<Rightarrow> birdStore)"

fun predatorRun :: "predatorFrame list \<Rightarrow> predator \<Rightarrow> birdStore \<Rightarrow> bool \<times> predator \<times> birdStore" where
  "predatorRun [] p st = (False, p, st)"
| "predatorRun ((inp, ids, pl, vis, world) # rest) p st =
     (case predatorUpdate inp ids pl vis p (world st) of
        (gone, p1, st1) \<Rightarrow> if gone then (True, p1, st1) else predatorRun rest p1 st1)"

text \<open>Every frame of the run finds the key held and the player in range.\<close>

fun struckEachFrame :: "predatorFrame list \<Rightarrow> predator \<Rightarrow> birdStore \<Rightarrow> bool" where
  "struckEachFrame [] p st = True"
| "struckEachFrame ((inp, ids, pl, vis, world) # rest) p st =
     (strikes (keys inp) pl p \<and>
      (case predatorUpdate inp ids pl vis p (world st) of
         (gone, p1, st1) \<Rightarrow> struckEachFrame rest p1 st1))"

text \<open>
  The player herds the bird: the space key is held and the player is closer than 3 (the
  test of lines 1840-1842).
\<close>

definition herds :: "keyTable \<Rightarrow> player option \<Rightarrow> bird \<Rightarrow> bool" where
  "herds ks pl b =
     (key_space ks \<and>
      (case pl of None \<Rightarrow> False | Some plr \<Rightarrow> distanceTo (position b) (plposition plr) < 3))"

text \<open>The velocity of a bird that runs from the point \<open>threat\<close> at \<open>factor\<close> times its speed.\<close>

definition awayFrom :: "vec3 \<Rightarrow> real \<Rightarrow> bird \<Rightarrow> vec3" where
  "awayFrom threat factor b =
     multiplyScalar (normalize (subVectors (position b) threat)) (speed b * factor)"

text \<open>How many of the four flags \<^verbatim>\<open>captured\<close>, \<^verbatim>\<open>killed\<close>, \<^verbatim>\<open>onVisitorHead\<close>,
  \<^verbatim>\<open>visitingCoop\<close> a bird has set.\<close>

definition flagsSet :: "bird \<Rightarrow> nat" where
  "flagsSet b = length (filter (\<lambda>f. f) [captured b, killed b, onVisitorHead b, visitingCoop b])"

text \<open>
  The value of a timer after each of a run of updates that add the deltas \<open>ds\<close> to it
  (\<^verbatim>\<open>timer += delta\<close>), starting from \<open>t\<close>.
\<close>

fun accumulate :: "real \<Rightarrow> real list \<Rightarrow> real list" where
  "accumulate t [] = []"
| "accumulate t (d # ds) = fadd t d # accumulate (fadd t d) ds"

text \<open>The deltas of a run of frames.\<close>

definition deltas :: "(frameInput \<times> 'a) list \<Rightarrow> real list" where
  "deltas fs = map (\<lambda>f. delta (fst f)) fs"







text \<open>
  The bird \<open>i\<close> as its \<^verbatim>\<open>update\<close> has moved it when the boundary test of line 1986 is
  reached.
\<close>

definition moved :: "frameInput \<Rightarrow> nat \<Rightarrow> gameState \<Rightarrow> bird" where
  "moved inp i g =
     locomotion inp i (thePlayer g) (predators g) (theVisitor g) (cornPiles g) (birds g i)"

text \<open>
  One bird over consecutive frames. A frame gives the input of the frame and, as
  \<open>world\<close>, what the rest of the program has done to the game state since the bird's
  previous \<^verbatim>\<open>update\<close>. The result lists, for each call of \<^verbatim>\<open>update\<close>, the value it
  returned and by how much it raised \<^verbatim>\<open>gameState.ranAway\<close>.
\<close>

type_synonym birdFrame = "frameInput \<times> (gameState \<Rightarrow> gameState)"

fun birdRun :: "nat \<Rightarrow> birdFrame list \<Rightarrow> gameState \<Rightarrow> (bool \<times> int) list" where
  "birdRun i [] g = []"
| "birdRun i ((inp, world) # rest) g =
     (case birdUpdate inp i (world g) of
        (shouldRemove, g1) \<Rightarrow>
          (shouldRemove, ranAway g1 - ranAway (world g)) # birdRun i rest g1)"

text \<open>
  The bird is outside the boundary in every frame of the run: each \<^verbatim>\<open>update\<close> finds the
  bird off the visitor's head and, after moving it, outside; the rest of the program has
  left the grace timer and the escape flag alone (only \<^verbatim>\<open>Bird.update\<close> writes them).
\<close>

fun outsideEachFrame :: "nat \<Rightarrow> birdFrame list \<Rightarrow> gameState \<Rightarrow> bool" where
  "outsideEachFrame i [] g = True"
| "outsideEachFrame i ((inp, world) # rest) g =
     (\<not> onVisitorHead (birds (world g) i) \<and>
      outOfBoundsTimer (birds (world g) i) = outOfBoundsTimer (birds g i) \<and>
      hasEscaped (birds (world g) i) = hasEscaped (birds g i) \<and>
      \<not> insideBoundary (position (moved inp i (world g))) \<and>
      outsideEachFrame i rest (snd (birdUpdate inp i (world g))))"






section \<open>Concrete inputs\<close>

text \<open>
  A frame in which no key is held and every random draw is 0, and a session of one
  second (\<^verbatim>\<open>?time=\<close> one sixtieth of a minute) just after the start button.
\<close>

definition shortSession :: gameState where
  "shortSession =
     startGame (\<lambda>i. 0) (\<lambda>i. 0) (\<lambda>i. 0) (\<lambda>i. 0) (initialState (1 / 60) 0)"

definition idleFrame :: "real \<Rightarrow> frameInput" where
  "idleFrame dt =
     \<lparr>delta = dt,
      keys = \<lparr>key_w = False, key_s = False, key_a = False, key_d = False, key_space = False\<rparr>,
      rndCoopTimer = (\<lambda>i. 0), rndWanderAngle = (\<lambda>i. 0), rndWanderTimer = (\<lambda>i. 0),
      rndPerch = (\<lambda>i. 0), rndDogEdge = 0, rndDogCoord = 0, rndDogTimer = 0, rndHawkEdge = 0,
      rndHawkCoord = 0, rndHawkTimer = 0, rndVisitorTimer = 0, rndVisitorTimer2 = 0,
      rndVisitorTargetX = 0, rndVisitorTargetZ = 0\<rparr>"

text \<open>
  A game just after the start button (every draw 0), ten minutes on the clock.
\<close>

definition freshGame :: gameState where
  "freshGame = startGame (\<lambda>i. 0) (\<lambda>i. 0) (\<lambda>i. 0) (\<lambda>i. 0) (initialState 10 0)"

text \<open>
  The player stands in the coop while the eggs are shown; collects all eight and leaves
  (\<open>fullBasketOut\<close>); comes back in (\<open>emptyVisit\<close>). \<open>partVisit\<close>: three eggs collected
  during a visit that began with a streak of one.
\<close>

definition eggsLaid :: gameState where
  "eggsLaid =
     freshGame\<lparr>inCoop := True, eggsAvailable := True, eggAvailableTimer := 60,
               nestBoxes := replicate 8 \<lparr>eggVisible = True, collected = False\<rparr>\<rparr>"

definition basketFull :: gameState where
  "basketFull = fold (\<lambda>k. collectEggAtCrosshair (Some k)) [0, 1, 2, 3, 4, 5, 6, 7] eggsLaid"

definition fullBasketOut :: gameState where
  "fullBasketOut = toggleCoop basketFull"

definition emptyVisit :: gameState where
  "emptyVisit = toggleCoop fullBasketOut"

definition partVisit :: gameState where
  "partVisit =
     fold (\<lambda>k. collectEggAtCrosshair (Some k)) [0, 1, 2]
       (eggsLaid\<lparr>consecutiveEggCollections := 1\<rparr>)"

text \<open>
  A dog that carries bird 0 and has just stepped over the outer boundary at \<open>x = 33\<close>;
  the player stands at the origin.
\<close>

definition escapingDog :: predator where
  "escapingDog =
     (newPredator Dog (3 / 4) (1 / 2))\<lparr>pposition := Vector3 33 0 0, capturedBird := Some 0\<rparr>"

definition carriedBirds :: birdStore where
  "carriedBirds =
     (birds freshGame)(0 := (birds freshGame 0)\<lparr>captured := True, position := Vector3 33 0 0\<rparr>)"

definition dogEscaping :: gameState where
  "dogEscaping = freshGame\<lparr>predators := [escapingDog], birds := carriedBirds\<rparr>"

text \<open>
  Three frames of half a second with the space key held; the player starts one unit from
  a fresh dog and follows it.
\<close>

definition swing :: frameInput where
  "swing = (idleFrame (1 / 2))\<lparr>keys := (keys (idleFrame (1 / 2)))\<lparr>key_space := True\<rparr>\<rparr>"

definition playerAt :: "real \<Rightarrow> player" where
  "playerAt x = \<lparr>plposition = Vector3 x 0 0, plvelocity = Vector3 0 0 0, plspeed = 8\<rparr>"

definition dogAt1 :: predator where
  "dogAt1 = (newPredator Dog 0 0)\<lparr>pposition := Vector3 1 0 0\<rparr>"

definition struckDog :: "int \<Rightarrow> real \<Rightarrow> predator" where
  "struckDog h x =
     (newPredator Dog 0 0)\<lparr>pposition := Vector3 x 0 0, pvelocity := Vector3 6 0 0, health := h,
                            fleeing := True\<rparr>"

definition threeSwings :: "predatorFrame list" where
  "threeSwings =
     [(swing, [], Some (playerAt 0), None, \<lambda>st. st),
      (swing, [], Some (playerAt 3), None, \<lambda>st. st),
      (swing, [], Some (playerAt 6), None, \<lambda>st. st)]"

text \<open>
  A chicken at the origin between two dogs: the first of the roster five units to the
  east, the second three units to the south.
\<close>

definition midBird :: bird where
  "midBird = newBird Chicken 0 0 0 0"

definition dogEast :: predator where
  "dogEast = (newPredator Dog 0 0)\<lparr>pposition := Vector3 5 (9 / 20) 0\<rparr>"

definition dogSouth :: predator where
  "dogSouth = (newPredator Dog 0 0)\<lparr>pposition := Vector3 0 (9 / 20) 3\<rparr>"

definition herder :: player where
  "herder = \<lparr>plposition = Vector3 0 (9 / 20) (-2), plvelocity = Vector3 0 0 0, plspeed = 8\<rparr>"

definition herdFrame :: frameInput where
  "herdFrame = (idleFrame (1 / 10))\<lparr>keys := (keys (idleFrame (1 / 10)))\<lparr>key_space := True\<rparr>\<rparr>"

text \<open>
  A chicken on its way to the coop with a dog one unit away; the same chicken at the
  gathering spot of a sitting visitor; and a chicken on the visitor's head with a hawk
  that has waited nine seconds over it. \<open>storeWith b\<close> is the store of a fresh game with
  \<open>b\<close> as bird 0.
\<close>

definition coopWalker :: "real \<Rightarrow> real \<Rightarrow> bird" where
  "coopWalker x z = (newBird Chicken x z 0 0)\<lparr>visitingCoop := True, coopVisitState := Walking\<rparr>"

definition dogBeside :: predator where
  "dogBeside = (newPredator Dog 0 0)\<lparr>pposition := Vector3 (-18) 0 (-19)\<rparr>"

definition sittingVisitor :: visitor where
  "sittingVisitor = newVisitor\<lparr>vstate := Sitting, vposition := Vector3 0 0 0\<rparr>"

definition perchedBird :: bird where
  "perchedBird =
     (newBird Chicken 0 0 0 0)\<lparr>position := Vector3 (- 2 / 5) (27 / 10) (- 1 / 5),
                                onVisitorHead := True, attractedToVisitor := True,
                                headOffset := Vector3 (- 2 / 5) (7 / 10) (- 1 / 5)\<rparr>"

definition hawkOverHead :: predator where
  "hawkOverHead =
     (newPredator Hawk 0 0)\<lparr>pposition := Vector3 0 (3 / 2) 0, targetBird := Some 0,
                              captureTimer := 9\<rparr>"

definition storeWith :: "bird \<Rightarrow> birdStore" where
  "storeWith b = (birds freshGame)(0 := b)"





text \<open>
  \<open>cornGame x b n\<close>: a fresh game with a corn pile at \<open>(x, 0, 0)\<close>, the bird \<open>b\<close> as
  chicken 0, and \<open>n\<close> birds run away so far. \<open>strayBird t esc\<close> stands on the pile on the
  line \<open>x = 30\<close>, just outside the boundary, with \<open>t\<close> on its grace timer; \<open>homeBird\<close> is
  back at a pile at the origin with 5 on its grace timer. \<open>cornFrame\<close> is a frame of eight
  seconds in which nothing else happens.
\<close>

definition strayBird :: "real \<Rightarrow> bool \<Rightarrow> bird" where
  "strayBird t esc =
     (newBird Chicken 30 0 0 0)\<lparr>inBounds := False, outOfBoundsTimer := t, hasEscaped := esc\<rparr>"

definition homeBird :: bird where
  "homeBird = (newBird Chicken 0 0 0 0)\<lparr>inBounds := False, outOfBoundsTimer := 5\<rparr>"

definition cornGame :: "real \<Rightarrow> bird \<Rightarrow> int \<Rightarrow> gameState" where
  "cornGame x b n =
     freshGame\<lparr>birds := (birds freshGame)(0 := b), ranAway := n,
               cornPiles := [\<lparr>location = Vector3 x 0 0, timer = 13\<rparr>]\<rparr>"

definition cornFrame :: birdFrame where
  "cornFrame = (idleFrame 8, \<lambda>g. g)"




section \<open>Properties\<close>

subsection \<open>Doubles: numbers that are added and subtracted without rounding\<close>

text \<open>
  The exponent found by \<open>binade\<close> is a lower bound of its argument, or the least
  exponent. So a number \<open>k / 2 ^ m\<close> with \<open>\<bar>k\<bar> < 2 ^ 53\<close> and \<open>m \<le> 1074\<close> is a whole multiple
  of the spacing of its binade, and is its own rounding.
\<close>

lemma upward_le: "1 \<le> y \<Longrightarrow> 2 powi (upward n y) \<le> y"
proof (induction n arbitrary: y)
  case 0
  then show ?case by simp
next
  case (Suc n)
  show ?case
  proof (cases "y < 2")
    case True
    then show ?thesis using Suc.prems by simp
  next
    case False
    then have "1 \<le> y / 2" by simp
    from Suc.IH [OF this] have "2 powi (upward n (y / 2)) \<le> y / 2" .
    then show ?thesis using False by (simp add: power_int_add)
  qed
qed

lemma downward_le:
  "0 < y \<Longrightarrow> y < 1 \<Longrightarrow> 2 powi (downward n y) \<le> y \<or> downward n y = - int n"
proof (induction n arbitrary: y)
  case 0
  then show ?case by simp
next
  case (Suc n)
  show ?case
  proof (cases "1 \<le> y * 2")
    case True
    then have "downward n (y * 2) = 0" by (cases n) simp_all
    then show ?thesis using Suc.prems True by (simp add: power_int_minus)
  next
    case False
    then have "0 < y * 2" "y * 2 < 1" using Suc.prems by simp_all
    from Suc.IH [OF this]
    show ?thesis using Suc.prems by (auto simp: power_int_diff)
  qed
qed

lemma binade_le: "0 < y \<Longrightarrow> 2 powi (binade y) \<le> y \<or> binade y = - 1022"
  using upward_le [of y 1023] downward_le [of y 1022] by (auto simp: binade_def)

lemma roundTiesToEven_int: "roundTiesToEven (of_int n) = n"
  by (simp add: roundTiesToEven_def)

lemma binary64_exact:
  assumes "\<bar>k\<bar> < 2 ^ 53" and "m \<le> 1074"
  shows "binary64 (of_int k / 2 ^ m) = of_int k / 2 ^ m"
proof (cases "k = 0")
  case True
  then show ?thesis by (simp add: binary64_def roundTiesToEven_def)
next
  case False
  define x :: real where "x = of_int k / 2 ^ m"
  define e where "e = binade \<bar>x\<bar>"
  have pos: "0 < \<bar>x\<bar>" using False by (simp add: x_def)
  have xk: "\<bar>x\<bar> = of_int \<bar>k\<bar> / 2 ^ m" by (simp add: x_def abs_divide)
  have "of_int \<bar>k\<bar> < (2::real) ^ 53"
    using assms(1) by (metis of_int_less_numeral_power_cancel_iff)
  then have ub: "\<bar>x\<bar> < 2 powi (53 - int m)"
    unfolding xk by (simp add: power_int_diff divide_strict_right_mono)
  have e: "e \<le> 52 - int m"
  proof -
    from binade_le [OF pos] consider "2 powi e \<le> \<bar>x\<bar>" | "e = - 1022"
      by (auto simp: e_def)
    then show ?thesis
    proof cases
      case 1
      then have "(2::real) powi e < 2 powi (53 - int m)" using ub by simp
      moreover have "53 - int m \<le> e \<Longrightarrow> (2::real) powi (53 - int m) \<le> 2 powi e"
        by (rule power_int_increasing) simp_all
      ultimately have "e < 53 - int m" by (cases "e < 53 - int m") simp_all
      then show ?thesis by simp
    next
      case 2
      then show ?thesis using assms(2) by simp
    qed
  qed
  define j where "j = nat (52 - int m - e)"
  have j: "int j = 52 - int m - e" using e by (simp add: j_def)
  have "x / 2 powi (e - 52) = of_int k * 2 powi (52 - int m - e)"
    by (simp add: x_def power_int_diff power_int_add field_simps)
  also have "\<dots> = of_int (k * 2 ^ j)"
    by (simp add: j [symmetric])
  finally have q: "x / 2 powi (e - 52) = of_int (k * 2 ^ j)" .
  have "binary64 x = of_int (k * 2 ^ j) * 2 powi (e - 52)"
    unfolding binary64_def Let_def e_def [symmetric] q roundTiesToEven_int ..
  also have "\<dots> = x"
    using q by (simp add: field_simps)
  finally show ?thesis by (simp add: x_def)
qed

lemma fadd_exact:
  "a + b = of_int k / 2 ^ m \<Longrightarrow> \<bar>k\<bar> < 2 ^ 53 \<Longrightarrow> m \<le> 1074 \<Longrightarrow> fadd a b = a + b"
  using binary64_exact [of k m] by (simp add: fadd_def)


text \<open>
  Where the rounding shows. The double nearest to 0.1 lies a little above 0.1, so the
  exact sum of a hundred of them is above 10; added one by one as doubles they are still
  below 10 after the hundredth addition and reach 10 with the next.
\<close>

lemma upward_unfold:
  "upward (numeral n) y = (if y < 2 then 0 else upward (pred_numeral n) (y / 2) + 1)"
  by (simp add: numeral_eq_Suc)

lemma downward_unfold:
  "downward (numeral n) y = (if 1 \<le> y then 0 else downward (pred_numeral n) (y * 2) - 1)"
  by (simp add: numeral_eq_Suc)

lemma replicate_unfold: "replicate (numeral n) x = x # replicate (pred_numeral n) x"
  by (simp add: numeral_eq_Suc)

lemmas double_eval = binary64_def binade_def upward_unfold downward_unfold roundTiesToEven_def
  fadd_def fsub_def Let_def power_int_minus power_int_diff power_int_add

lemma tenth: "binary64 (1 / 10) = 3602879701896397 / 36028797018963968"
  by (simp add: double_eval)

lemma hundred_tenths:
  "10 \<le> sum_list (replicate 100 (binary64 (1 / 10)))"
  "accumulate 0 (replicate 101 (binary64 (1 / 10))) ! 99 < 10"
  "10 \<le> accumulate 0 (replicate 101 (binary64 (1 / 10))) ! 100"
  unfolding tenth by (simp_all add: double_eval replicate_unfold)

subsection \<open>Square roots against constants\<close>

text \<open>
  Distances are square roots; a comparison of a distance with a non-negative constant is
  a comparison of the squares.
\<close>

lemma sqrt_less_iff_sq: "0 \<le> c \<Longrightarrow> (sqrt x < c) = (x < c * c)"
  by (metis real_sqrt_less_iff real_sqrt_mult_self abs_of_nonneg real_sqrt_mult)

lemma less_sqrt_iff_sq: "0 \<le> c \<Longrightarrow> (c < sqrt x) = (c * c < x)"
  by (metis real_sqrt_less_iff real_sqrt_mult_self abs_of_nonneg real_sqrt_mult)

lemma sqrt_le_iff_sq: "0 \<le> c \<Longrightarrow> (sqrt x \<le> c) = (x \<le> c * c)"
  by (metis real_sqrt_le_iff real_sqrt_mult_self abs_of_nonneg real_sqrt_mult)

lemma le_sqrt_iff_sq: "0 \<le> c \<Longrightarrow> (c \<le> sqrt x) = (c * c \<le> x)"
  by (metis real_sqrt_le_iff real_sqrt_mult_self abs_of_nonneg real_sqrt_mult)

lemma sqrt_sq_eq: "0 \<le> c \<Longrightarrow> x = c * c \<Longrightarrow> sqrt x = c"
  by (simp add: real_sqrt_mult)

subsection \<open>Phases that neither end the session nor touch the score silently\<close>

lemma quiet_refl: "quiet g g"
  by (simp add: quiet_def)

lemma quiet_trans: "quiet g g' \<Longrightarrow> quiet g' g'' \<Longrightarrow> quiet g g''"
  unfolding quiet_def
  by (elim conjE exE)
     (rule conjI, simp, rule conjI, simp, rule conjI, simp, rule conjI, simp,
      rule_tac x="es @ esa" in exI, auto)

lemma quiet_same:
  "started g' = started g \<Longrightarrow> gameCompleted g' = gameCompleted g \<Longrightarrow> modals g' = modals g \<Longrightarrow>
   maxGameTime g' = maxGameTime g \<Longrightarrow>
   scoreEvents g' = scoreEvents g \<Longrightarrow> score g' = score g \<Longrightarrow> quiet g g'"
  by (simp add: quiet_def)

lemma quiet_addScore: "reason \<noteq> ''Level complete!'' \<Longrightarrow> quiet g (addScore points reason g)"
  by (simp add: quiet_def addScore_def)

lemma quiet_birdUpdate: "quiet g (snd (birdUpdate inp i g))"
  by (rule quiet_same) (simp_all add: birdUpdate_def Let_def split: prod.split)

lemma quiet_birdRemoved: "quiet g (birdRemoved r b g)"
proof -
  have "quiet (g\<lparr>killedCount := killedCount g + 1\<rparr>)
          (addScore (-100) ''Bird killed'' (g\<lparr>killedCount := killedCount g + 1\<rparr>))"
    by (rule quiet_addScore) simp
  moreover have "quiet g (g\<lparr>killedCount := killedCount g + 1\<rparr>)"
    by (rule quiet_same) simp_all
  moreover have "quiet g (addScore (-50) ''Bird ran away'' g)"
    by (rule quiet_addScore) simp
  ultimately show ?thesis
    by (auto simp: birdRemoved_def quiet_refl intro: quiet_trans)
qed

lemma quiet_chickensLoop: "quiet g (chickensLoop inp n g)"
proof (induction n arbitrary: g)
  case 0
  show ?case by (simp add: quiet_refl)
next
  case (Suc i)
  obtain r g1 where u: "birdUpdate inp (chickens g ! i) g = (r, g1)"
    by (cases "birdUpdate inp (chickens g ! i) g")
  have q1: "quiet g g1"
    using quiet_birdUpdate [of g inp "chickens g ! i"] u by simp
  have q2: "quiet g1 (g1\<lparr>chickens := splice1 i (chickens g1)\<rparr>)"
    by (rule quiet_same) simp_all
  have q3: "quiet g (birdRemoved r (chickens g ! i) (g1\<lparr>chickens := splice1 i (chickens g1)\<rparr>))"
    by (rule quiet_trans [OF q1 quiet_trans [OF q2 quiet_birdRemoved]])
  show ?case
    using u q1 q3 Suc.IH by (auto simp: Let_def intro: quiet_trans)
qed

lemma quiet_ducksLoop: "quiet g (ducksLoop inp n g)"
proof (induction n arbitrary: g)
  case 0
  show ?case by (simp add: quiet_refl)
next
  case (Suc i)
  obtain r g1 where u: "birdUpdate inp (ducks g ! i) g = (r, g1)"
    by (cases "birdUpdate inp (ducks g ! i) g")
  have q1: "quiet g g1"
    using quiet_birdUpdate [of g inp "ducks g ! i"] u by simp
  have q2: "quiet g1 (g1\<lparr>ducks := splice1 i (ducks g1)\<rparr>)"
    by (rule quiet_same) simp_all
  have q3: "quiet g (birdRemoved r (ducks g ! i) (g1\<lparr>ducks := splice1 i (ducks g1)\<rparr>))"
    by (rule quiet_trans [OF q1 quiet_trans [OF q2 quiet_birdRemoved]])
  show ?case
    using u q1 q3 Suc.IH by (auto simp: Let_def intro: quiet_trans)
qed

lemma quiet_updatePlayer: "quiet g (updatePlayer inp g)"
  by (rule quiet_same) (simp_all add: updatePlayer_def split: option.split)

lemma quiet_updateBirds: "quiet g (updateBirds inp g)"
  unfolding updateBirds_def Let_def
  by (rule quiet_trans [OF quiet_updatePlayer quiet_trans [OF quiet_chickensLoop quiet_ducksLoop]])

lemma quiet_survivalBonus: "quiet g (survivalBonus dt g)"
proof -
  have a: "quiet g (g\<lparr>survivalTimer := v\<rparr>)" for v
    by (rule quiet_same) simp_all
  have b: "quiet g (addScore 25 ''All birds safe for 1 minute!'' (g\<lparr>survivalTimer := 0\<rparr>))"
    by (rule quiet_trans [OF a quiet_addScore]) simp
  show ?thesis
    using a b by (simp add: survivalBonus_def Let_def)
qed

lemma quiet_tick: "quiet g (tick inp g)"
proof -
  have "quiet g (g\<lparr>gameTime := gameTime g + delta inp\<rparr>)"
    by (rule quiet_same) simp_all
  then show ?thesis
    unfolding tick_def by (rule quiet_trans [OF _ quiet_survivalBonus])
qed

lemma quiet_updateCornPiles: "quiet g (updateCornPiles dt g)"
  by (rule quiet_same) (simp_all add: updateCornPiles_def)

lemma quiet_eggCycle: "quiet g (eggCycle dt g)"
  by (rule quiet_same) (simp_all add: eggCycle_def Let_def)

lemma quiet_spawnPredators: "quiet g (spawnPredators inp g)"
  by (rule quiet_same) (simp_all add: spawnPredators_def Let_def)

lemma quiet_predatorsLoop: "quiet g (predatorsLoop inp n g)"
proof (induction n arbitrary: g)
  case 0
  show ?case by (simp add: quiet_refl)
next
  case (Suc i)
  obtain r p st where u:
    "predatorUpdate inp (chickens g @ ducks g) (thePlayer g) (theVisitor g) (predators g ! i) (birds g)
       = (r, p, st)"
    by (metis prod_cases3)
  define g1 where "g1 = g\<lparr>birds := st, predators := (predators g)[i := p]\<rparr>"
  define g2 where "g2 = g1\<lparr>predators := splice1 i (predators g1), defeated := defeated g1 + 1\<rparr>"
  have q1: "quiet g g1"
    unfolding g1_def by (rule quiet_same) simp_all
  have q2: "quiet g1 g2"
    unfolding g2_def by (rule quiet_same) simp_all
  have q3: "quiet g2 (addScore 20 ''Predator scared away'' g2)"
    by (rule quiet_addScore) simp
  have q4: "quiet g (addScore 20 ''Predator scared away'' g2)"
    by (rule quiet_trans [OF q1 quiet_trans [OF q2 q3]])
  have step: "predatorsLoop inp (Suc i) g =
                predatorsLoop inp i (if r then addScore 20 ''Predator scared away'' g2 else g1)"
    using u by (simp add: Let_def g1_def g2_def)
  show ?case
    unfolding step using q1 q4 Suc.IH by (auto intro: quiet_trans)
qed

lemma quiet_updatePredators: "quiet g (updatePredators inp g)"
  unfolding updatePredators_def Let_def
  by (rule quiet_trans [OF quiet_spawnPredators quiet_predatorsLoop])

lemma quiet_updateVisitor: "quiet g (updateVisitor inp g)"
  by (rule quiet_same)
     (simp_all add: updateVisitor_def Let_def split: option.split prod.split)

lemma quiet_updateWorld: "quiet g (updateWorld inp g)"
  unfolding updateWorld_def
  by (rule quiet_trans [OF quiet_updateCornPiles
        quiet_trans [OF quiet_eggCycle quiet_trans [OF quiet_updatePredators quiet_updateVisitor]]])

subsection \<open>The score and its events\<close>

lemma logsScore_refl: "logsScore g g"
  by (simp add: logsScore_def)

lemma logsScore_trans: "logsScore g g' \<Longrightarrow> logsScore g' g'' \<Longrightarrow> logsScore g g''"
  unfolding logsScore_def by (elim exE conjE) (rule_tac x="es @ esa" in exI, simp)

lemma quiet_logsScore: "quiet g g' \<Longrightarrow> logsScore g g'"
  unfolding quiet_def logsScore_def by blast

lemma logsScore_same: "scoreEvents g' = scoreEvents g \<Longrightarrow> score g' = score g \<Longrightarrow> logsScore g g'"
  by (simp add: logsScore_def)

lemma logsScore_addScore: "logsScore g (addScore points reason g)"
  by (simp add: logsScore_def addScore_def)

lemma logsScore_levelComplete: "logsScore g (levelComplete g)"
  by (simp add: logsScore_def levelComplete_def addScore_def Let_def)

lemma logsScore_gameOver: "logsScore g (gameOver g)"
  by (simp add: logsScore_def gameOver_def Let_def)

lemma logsScore_animate: "logsScore g (animate inp g)"
  unfolding animate_def Let_def
  by (auto intro: logsScore_refl logsScore_trans [OF quiet_logsScore [OF quiet_tick]]
        logsScore_levelComplete logsScore_gameOver
        logsScore_trans [OF quiet_logsScore [OF quiet_tick]
          logsScore_trans [OF quiet_logsScore [OF quiet_updateBirds]]]
        quiet_logsScore [OF quiet_updateWorld])

lemma logsScore_toggleCoop: "logsScore g (toggleCoop g)"
  by (simp add: logsScore_def toggleCoop_def addScore_def Let_def)

lemma logsScore_collectEgg: "logsScore g (collectEggAtCrosshair aim g)"
  by (simp add: logsScore_def collectEggAtCrosshair_def addScore_def split: option.split)

lemma logsScore_handle: "logsScore g (handle e g)"
proof (cases e)
  case (Frame inp)
  then show ?thesis by (simp add: logsScore_animate)
next
  case (StartButton rx rz ra rc)
  then show ?thesis by (simp add: logsScore_def startGame_def Let_def)
next
  case KeyE
  then show ?thesis
    by (simp add: pressE_def logsScore_refl logsScore_toggleCoop split: option.split)
next
  case (KeyF aim)
  then show ?thesis by (simp add: pressF_def logsScore_refl logsScore_collectEgg)
next
  case KeyC
  then show ?thesis
    by (simp add: pressC_def throwCorn_def logsScore_def split: option.split)
next
  case (Click locked aim)
  then show ?thesis by (simp add: click_def logsScore_refl logsScore_collectEgg)
qed

lemma logsScore_session: "logsScore g (session evs g)"
proof (induction evs arbitrary: g)
  case Nil
  show ?case by (simp add: logsScore_refl)
next
  case (Cons e evs)
  show ?case
    using logsScore_trans [OF logsScore_handle Cons.IH] by simp
qed

text \<open>
  C7. The score is changed only by score events: every handler of the session (a frame or
  a key or mouse event) extends the log of \<^verbatim>\<open>(points, reason)\<close> events and moves the score
  by exactly the sum of the points it logged; hence at any point of a session that began
  in the initial state the score is the sum of all points logged.
\<close>

theorem score_only_through_events:
  "(\<exists>es. scoreEvents (handle e g) = scoreEvents g @ es \<and>
         score (handle e g) = score g + sum_list (map fst es)) \<and>
   score (session evs (initialState minutes rnd)) =
     sum_list (map fst (scoreEvents (session evs (initialState minutes rnd))))"
proof
  show "\<exists>es. scoreEvents (handle e g) = scoreEvents g @ es \<and>
         score (handle e g) = score g + sum_list (map fst es)"
    using logsScore_handle [of g e] by (simp add: logsScore_def)
next
  have "logsScore (initialState minutes rnd) (session evs (initialState minutes rnd))"
    by (rule logsScore_session)
  then show "score (session evs (initialState minutes rnd)) =
     sum_list (map fst (scoreEvents (session evs (initialState minutes rnd))))"
    by (auto simp: logsScore_def initialState_def)
qed

subsection \<open>The end of the session\<close>

lemma frames_after_stop: "\<not> started g \<Longrightarrow> session (map Frame inps) g = g"
  by (induction inps) (simp_all add: animate_def)

lemma quiet_completionBonuses: "quiet g g' \<Longrightarrow> completionBonuses g' = completionBonuses g"
  unfolding quiet_def completionBonuses_def by (elim conjE exE) simp

lemma animate_completed:
  assumes "gameCompleted g"
  shows "quiet g (animate inp g)"
proof (cases "started g")
  case False
  then show ?thesis by (simp add: animate_def quiet_refl)
next
  case True
  have t: "gameCompleted (tick inp g)"
    using quiet_tick [of g inp] assms by (simp add: quiet_def)
  have b: "gameCompleted (updateBirds inp (tick inp g))"
    using quiet_updateBirds [of "tick inp g" inp] t by (simp add: quiet_def)
  have "animate inp g = updateWorld inp (updateBirds inp (tick inp g))"
    using True t b by (simp add: animate_def Let_def)
  then show ?thesis
    using quiet_trans [OF quiet_tick quiet_trans [OF quiet_updateBirds quiet_updateWorld]]
    by simp
qed

lemma animate_modal:
  assumes "modals (animate inp g) \<noteq> modals g"
  shows "\<not> started (animate inp g) \<and> gameCompleted (animate inp g)"
proof -
  have w: "modals (updateWorld inp (updateBirds inp (tick inp g))) = modals g"
    using quiet_trans [OF quiet_tick quiet_trans [OF quiet_updateBirds quiet_updateWorld], of g inp inp inp]
    by (simp add: quiet_def)
  show ?thesis
    using assms w
    by (auto simp: animate_def Let_def levelComplete_def gameOver_def addScore_def split: if_splits)
qed

text \<open>
  C8. Termination is one-shot. Once \<^verbatim>\<open>started\<close> is false no frame changes anything. A
  frame that reaches the time budget, or that leaves both rosters empty after the birds'
  update, stops the session (\<^verbatim>\<open>started\<close> false, \<^verbatim>\<open>gameCompleted\<close> true) and shows one
  modal; any frame that shows a modal stops the session; and once \<^verbatim>\<open>gameCompleted\<close> is
  set no frame shows a modal or gives a completion bonus again.
\<close>

theorem termination_one_shot:
  "(\<not> started g \<longrightarrow> session (map Frame inps) g = g) \<and>
   (started g \<and> \<not> gameCompleted g \<and> maxGameTime g \<le> gameTime g + delta inp \<longrightarrow>
      \<not> started (animate inp g) \<and> gameCompleted (animate inp g) \<and>
      modals (animate inp g) = modals g @ [True]) \<and>
   (started g \<and> \<not> gameCompleted g \<and> gameTime g + delta inp < maxGameTime g \<and>
    chickens (updateBirds inp (tick inp g)) = [] \<and> ducks (updateBirds inp (tick inp g)) = [] \<longrightarrow>
      \<not> started (animate inp g) \<and> gameCompleted (animate inp g) \<and>
      modals (animate inp g) = modals g @ [False] \<and>
      completionBonuses (animate inp g) = completionBonuses g) \<and>
   (modals (animate inp g) \<noteq> modals g \<longrightarrow>
      \<not> started (animate inp g) \<and> gameCompleted (animate inp g)) \<and>
   (gameCompleted g \<longrightarrow>
      modals (animate inp g) = modals g \<and>
      completionBonuses (animate inp g) = completionBonuses g)"
proof (intro conjI impI)
  assume "\<not> started g"
  then show "session (map Frame inps) g = g" by (rule frames_after_stop)
next
  assume a: "started g \<and> \<not> gameCompleted g \<and> maxGameTime g \<le> gameTime g + delta inp"
  have t: "quiet g (tick inp g)" by (rule quiet_tick)
  have gt: "gameTime (tick inp g) = gameTime g + delta inp"
    by (simp add: tick_def survivalBonus_def addScore_def Let_def)
  have "animate inp g = levelComplete (tick inp g)"
    using a t gt by (simp add: animate_def Let_def quiet_def)
  then show "\<not> started (animate inp g)" "gameCompleted (animate inp g)"
    "modals (animate inp g) = modals g @ [True]"
    using t by (simp_all add: levelComplete_def addScore_def Let_def quiet_def)
next
  assume a: "started g \<and> \<not> gameCompleted g \<and> gameTime g + delta inp < maxGameTime g \<and>
    chickens (updateBirds inp (tick inp g)) = [] \<and> ducks (updateBirds inp (tick inp g)) = []"
  have t: "quiet g (tick inp g)" by (rule quiet_tick)
  have b: "quiet g (updateBirds inp (tick inp g))"
    by (rule quiet_trans [OF quiet_tick quiet_updateBirds])
  have gt: "gameTime (tick inp g) = gameTime g + delta inp"
    by (simp add: tick_def survivalBonus_def addScore_def Let_def)
  have eq: "animate inp g = gameOver (updateBirds inp (tick inp g))"
    using a t b gt by (simp add: animate_def Let_def quiet_def)
  show "\<not> started (animate inp g)" "gameCompleted (animate inp g)"
    "modals (animate inp g) = modals g @ [False]"
    using b unfolding eq by (simp_all add: gameOver_def Let_def quiet_def)
  show "completionBonuses (animate inp g) = completionBonuses g"
    using quiet_completionBonuses [OF b] unfolding eq
    by (simp add: gameOver_def Let_def completionBonuses_def)
next
  assume "modals (animate inp g) \<noteq> modals g"
  then show "\<not> started (animate inp g)" "gameCompleted (animate inp g)"
    using animate_modal by blast+
next
  assume c: "gameCompleted g"
  show "modals (animate inp g) = modals g"
    using animate_completed [OF c, of inp] by (simp add: quiet_def)
  show "completionBonuses (animate inp g) = completionBonuses g"
    using animate_completed [OF c, of inp] by (rule quiet_completionBonuses)
qed

theorem termination_one_shot_witness:
  "\<not> started (animate (idleFrame 2) shortSession) \<and>
   gameCompleted (animate (idleFrame 2) shortSession) \<and>
   modals (animate (idleFrame 2) shortSession) = [True] \<and>
   session (map Frame [idleFrame 1, idleFrame 2]) (animate (idleFrame 2) shortSession)
     = animate (idleFrame 2) shortSession"
proof -
  have h: "started shortSession \<and> \<not> gameCompleted shortSession \<and>
           maxGameTime shortSession \<le> gameTime shortSession + delta (idleFrame 2)"
    by (simp add: shortSession_def startGame_def initialState_def idleFrame_def Let_def)
  have m: "modals shortSession = []"
    by (simp add: shortSession_def startGame_def initialState_def Let_def)
  have a: "\<not> started (animate (idleFrame 2) shortSession) \<and>
           gameCompleted (animate (idleFrame 2) shortSession) \<and>
           modals (animate (idleFrame 2) shortSession) = modals shortSession @ [True]"
    using termination_one_shot [of shortSession "[]" "idleFrame 2"] h by blast
  then show ?thesis
    using termination_one_shot [of "animate (idleFrame 2) shortSession" "[idleFrame 1, idleFrame 2]" "idleFrame 1"] m
    by simp
qed

subsection \<open>Evaluation of the concrete inputs\<close>

lemmas vec_defs = distanceTo_def vlength_def lengthSq_def subVectors_def addv_def Vector3_def
  normalize_def multiplyScalar_def

lemmas sqrt_cmp = less_sqrt_iff_sq sqrt_less_iff_sq sqrt_le_iff_sq le_sqrt_iff_sq

lemma replicate8: "replicate 8 x = [x, x, x, x, x, x, x, x]"
  by (simp add: eval_nat_numeral)

lemma idleFrame_simps:
  "delta (idleFrame dt) = dt" "key_space (keys (idleFrame dt)) = False"
  by (simp_all add: idleFrame_def)

lemma freshGame_simps:
  "thePlayer freshGame = Some \<lparr>plposition = Vector3 0 0 0, plvelocity = Vector3 0 0 0, plspeed = 8\<rparr>"
  "theVisitor freshGame = None" "defeated freshGame = 0" "score freshGame = 0"
  "scoreEvents freshGame = []" "predatorSpawnTimer freshGame = 15" "hawkSpawnTimer freshGame = 25"
  by (simp_all add: freshGame_def startGame_def initialState_def Let_def)

subsection \<open>Predator removal\<close>

lemma dog_update:
  "predatorUpdate (idleFrame (1 / 10)) (chickens freshGame @ ducks freshGame)
     (thePlayer freshGame) None escapingDog carriedBirds
   = (True, escapingDog\<lparr>pvelocity := Vector3 4 0 0\<rparr>,
      carriedBirds(0 := (carriedBirds 0)\<lparr>killed := True\<rparr>))"
  by (simp add: escapingDog_def carriedBirds_def freshGame_simps predatorUpdate_def
        playerStrike_def idleFrame_simps newPredator_def vec_defs carry_def getClosestEdge_def
        Let_def sqrt_cmp sqrt_sq_eq [of 7])

text \<open>
  C1 (the code at the failing input). A dog at full health, never struck, carries bird 0
  over the boundary. The predator pass of the frame removes it, marks the bird killed,
  and all the same increments \<^verbatim>\<open>defeated\<close> and adds 20 points under the reason
  \<^verbatim>\<open>Predator scared away\<close>.
\<close>

theorem escape_is_credited:
  "defeated (updatePredators (idleFrame (1 / 10)) dogEscaping) = defeated dogEscaping + 1 \<and>
   score (updatePredators (idleFrame (1 / 10)) dogEscaping) = score dogEscaping + 20 \<and>
   scoreEvents (updatePredators (idleFrame (1 / 10)) dogEscaping)
     = scoreEvents dogEscaping @ [(20, ''Predator scared away'')] \<and>
   killed (birds (updatePredators (idleFrame (1 / 10)) dogEscaping) 0) \<and>
   health escapingDog = 3 \<and>
   predators (updatePredators (idleFrame (1 / 10)) dogEscaping) = []"
  by (simp add: updatePredators_def spawnPredators_def dogEscaping_def idleFrame_simps
        freshGame_simps(2-) dog_update Let_def addScore_def splice1_def)
     (simp add: escapingDog_def newPredator_def)

subsection \<open>Leaving the coop\<close>

lemma basketFull_simps:
  "inCoop basketFull = True" "consecutiveEggCollections basketFull = 0"
  "eggsCollected basketFull = 8" "eggsAtVisitStart basketFull = 0" "score basketFull = 80"
  by (simp_all add: basketFull_def eggsLaid_def freshGame_def startGame_def initialState_def
       collectEggAtCrosshair_def addScore_def Let_def replicate8)

lemma fullBasketOut_simps:
  "inCoop fullBasketOut = False" "consecutiveEggCollections fullBasketOut = 1"
  "eggsCollected fullBasketOut = 8" "score fullBasketOut = 130"
  by (simp_all add: fullBasketOut_def toggleCoop_def addScore_def basketFull_simps Let_def)

lemma emptyVisit_simps:
  "inCoop emptyVisit = True" "consecutiveEggCollections emptyVisit = 1"
  "eggsCollected emptyVisit = 8" "eggsAtVisitStart emptyVisit = 8"
  by (simp_all add: emptyVisit_def toggleCoop_def fullBasketOut_simps Let_def)

lemma partVisit_simps:
  "inCoop partVisit = True" "consecutiveEggCollections partVisit = 1"
  "eggsCollected partVisit = 3" "eggsAtVisitStart partVisit = 0" "score partVisit = 30"
  by (simp_all add: partVisit_def eggsLaid_def freshGame_def startGame_def initialState_def
       collectEggAtCrosshair_def addScore_def Let_def replicate8)

text \<open>
  C6 as stated fails: a visit during which no egg was collected is incomplete, yet leaving
  the coop keeps the streak (here 1) instead of resetting it.
\<close>

theorem empty_visit_keeps_streak:
  "inCoop emptyVisit \<and> eggsCollected emptyVisit - eggsAtVisitStart emptyVisit < 8 \<and>
   consecutiveEggCollections emptyVisit = 1 \<and>
   \<not> inCoop (toggleCoop emptyVisit) \<and>
   consecutiveEggCollections (toggleCoop emptyVisit) = 1"
  by (simp add: toggleCoop_def emptyVisit_simps Let_def)

text \<open>
  C6, amended. On every exit from the coop, with \<open>n\<close> the number of eggs collected since
  the coop was entered: if \<open>n = 8\<close> the full-basket bonus of 50 is applied and the streak
  counter is incremented; if \<open>n\<close> is positive and not 8 the streak counter is reset to
  zero and the score is unchanged; if \<open>n\<close> is zero neither the streak nor the score
  changes.
\<close>

theorem toggleCoop_exit:
  assumes "inCoop g"
  shows "(eggsCollected g - eggsAtVisitStart g = 8 \<longrightarrow>
            score (toggleCoop g) = score g + 50 \<and>
            scoreEvents (toggleCoop g) = scoreEvents g @ [(50, ''Full basket bonus!'')] \<and>
            consecutiveEggCollections (toggleCoop g) = consecutiveEggCollections g + 1) \<and>
         (0 < eggsCollected g - eggsAtVisitStart g \<and> eggsCollected g - eggsAtVisitStart g \<noteq> 8 \<longrightarrow>
            score (toggleCoop g) = score g \<and> scoreEvents (toggleCoop g) = scoreEvents g \<and>
            consecutiveEggCollections (toggleCoop g) = 0) \<and>
         (eggsCollected g - eggsAtVisitStart g \<le> 0 \<longrightarrow>
            score (toggleCoop g) = score g \<and> scoreEvents (toggleCoop g) = scoreEvents g \<and>
            consecutiveEggCollections (toggleCoop g) = consecutiveEggCollections g) \<and>
         \<not> inCoop (toggleCoop g)"
  using assms by (simp add: toggleCoop_def addScore_def Let_def)

theorem toggleCoop_exit_witness:
  "inCoop basketFull \<and> score (toggleCoop basketFull) = 130 \<and>
   consecutiveEggCollections (toggleCoop basketFull) = 1 \<and>
   inCoop partVisit \<and> consecutiveEggCollections partVisit = 1 \<and>
   consecutiveEggCollections (toggleCoop partVisit) = 0 \<and>
   score (toggleCoop partVisit) = 30 \<and>
   inCoop emptyVisit \<and> consecutiveEggCollections (toggleCoop emptyVisit) = 1"
  using toggleCoop_exit [of basketFull] toggleCoop_exit [of partVisit]
    toggleCoop_exit [of emptyVisit]
  by (simp add: basketFull_simps partVisit_simps emptyVisit_simps)

subsection \<open>The player's strike\<close>

lemma releaseOnScare_fields:
  "health (fst (releaseOnScare p st)) = health p"
  "fleeing (fst (releaseOnScare p st)) = fleeing p"
  "isFlying (fst (releaseOnScare p st)) = isFlying p"
  "capturedBird (fst (releaseOnScare p st)) = None"
  "targetBird (fst (releaseOnScare p st)) = None"
  by (simp_all add: releaseOnScare_def split: option.split)

lemma nudgeFrom_fields:
  "health (nudgeFrom other r p) = health p" "fleeing (nudgeFrom other r p) = fleeing p"
  "isFlying (nudgeFrom other r p) = isFlying p"
  "capturedBird (nudgeFrom other r p) = capturedBird p"
  "targetBird (nudgeFrom other r p) = targetBird p"
  "captureTimer (nudgeFrom other r p) = captureTimer p"
  "pvelocity (nudgeFrom other r p) = pvelocity p"
  by (simp_all add: nudgeFrom_def Let_def)

lemma settle_fields:
  "health (settle dt pl vis p) = health p" "fleeing (settle dt pl vis p) = fleeing p"
  "isFlying (settle dt pl vis p) = isFlying p"
  "capturedBird (settle dt pl vis p) = capturedBird p"
  "targetBird (settle dt pl vis p) = targetBird p"
  "captureTimer (settle dt pl vis p) = captureTimer p"
  "pvelocity (settle dt pl vis p) = pvelocity p"
  by (simp_all add: settle_def Let_def nudgeFrom_fields split: option.split)

lemma fleeFromPlayer_fields:
  "health (fleeFromPlayer dt plr p) = health p" "fleeing (fleeFromPlayer dt plr p) = fleeing p"
  "isFlying (fleeFromPlayer dt plr p) = isFlying p"
  by (simp_all add: fleeFromPlayer_def Let_def)

lemma struck_update:
  assumes "strikes (keys inp) pl p"
  shows "case predatorUpdate inp ids pl vis p st of
           (gone, p', st') \<Rightarrow> health p' = health p - 1 \<and> fleeing p' \<and> gone = (health p \<le> 1) \<and>
                              isFlying p' = isFlying p"
proof -
  obtain plr where pl: "pl = Some plr" and k: "key_space (keys inp)"
    and d: "distanceTo (pposition p) (plposition plr) < (if isFlying p then 6 else 4)"
    using assms by (auto simp: strikes_def split: option.splits)
  have far: "\<not> distanceTo (pposition p) (plposition plr) > 10"
    using d by (simp split: if_splits)
  obtain p2 st2 where r: "releaseOnScare (p\<lparr>fleeing := True, health := health p - 1\<rparr>) st = (p2, st2)"
    by (cases "releaseOnScare (p\<lparr>fleeing := True, health := health p - 1\<rparr>) st")
  have p2: "health p2 = health p - 1" "fleeing p2" "isFlying p2 = isFlying p"
    using releaseOnScare_fields(1-3) [of "p\<lparr>fleeing := True, health := health p - 1\<rparr>" st] r
    by simp_all
  have s: "playerStrike (keys inp) pl p st = (health p \<le> 1, p2, st2)"
    using pl k d far r p2 by (simp add: playerStrike_def Let_def)
  show ?thesis
    using s p2 pl
    by (simp add: predatorUpdate_def Let_def settle_fields fleeFromPlayer_fields)
qed


lemma struck_run:
  "struckEachFrame fs p st \<Longrightarrow> 1 \<le> health p \<Longrightarrow> int (length fs) \<le> health p \<Longrightarrow>
   (case predatorRun fs p st of
      (gone, p', st') \<Rightarrow>
        health p' = health p - int (length fs) \<and>
        gone = (fs \<noteq> [] \<and> int (length fs) = health p) \<and>
        (fs = [] \<or> fleeing p'))"
proof (induction fs arbitrary: p st)
  case Nil
  then show ?case by simp
next
  case (Cons f rest)
  obtain inp ids pl vis world where f: "f = (inp, ids, pl, vis, world)"
    by (metis prod_cases5)
  obtain gone p1 st1 where u: "predatorUpdate inp ids pl vis p (world st) = (gone, p1, st1)"
    by (metis prod_cases3)
  have hit: "strikes (keys inp) pl p" and more: "struckEachFrame rest p1 st1"
    using Cons.prems(1) f u by simp_all
  have p1: "health p1 = health p - 1" "fleeing p1" "gone = (health p \<le> 1)"
    using struck_update [OF hit, of ids vis "world st"] u by simp_all
  show ?case
  proof (cases gone)
    case True
    then have "health p = 1" using p1(3) Cons.prems(2) by simp
    moreover from this have "rest = []" using Cons.prems(3) by simp
    ultimately show ?thesis using True u f p1 by simp
  next
    case False
    then have h: "2 \<le> health p" using p1(3) by simp
    have a: "1 \<le> health p1" and b: "int (length rest) \<le> health p1"
      using h p1(1) Cons.prems(3) by simp_all
    obtain g2 p2 st2 where r: "predatorRun rest p1 st1 = (g2, p2, st2)"
      by (metis prod_cases3)
    have ih: "health p2 = health p1 - int (length rest)"
      "g2 = (rest \<noteq> [] \<and> int (length rest) = health p1)" "rest = [] \<or> fleeing p2"
      using Cons.IH [OF more a b] r by simp_all
    have fl: "fleeing p2"
      using ih(3) r p1(2) by (cases rest) auto
    show ?thesis
      using False u f r ih(1,2) fl p1(1) h by (cases rest) auto
  qed
qed

text \<open>
  C10. The strike is level-triggered. In every frame in which the space key is held and
  the player is within the scare range (6 for a flying predator, 4 otherwise),
  \<^verbatim>\<open>Predator.update\<close> lowers the health by exactly 1, leaves the predator fleeing, and
  returns \<^verbatim>\<open>true\<close> exactly when the health is used up. Over \<open>n\<close> consecutive such
  frames, \<open>n\<close> at most the health, the health drops by \<open>n\<close>, and the predator is removed
  exactly in the frame that brings it to zero.
\<close>

theorem strike_every_frame:
  "(strikes (keys inp) pl p \<longrightarrow>
      (case predatorUpdate inp ids pl vis p st of
         (gone, p', st') \<Rightarrow> health p' = health p - 1 \<and> fleeing p' \<and> gone = (health p \<le> 1))) \<and>
   (struckEachFrame fs p st \<and> 1 \<le> health p \<and> int (length fs) \<le> health p \<longrightarrow>
      (case predatorRun fs p st of
         (gone, p', st') \<Rightarrow>
           health p' = health p - int (length fs) \<and>
           gone = (fs \<noteq> [] \<and> int (length fs) = health p) \<and>
           (fs = [] \<or> fleeing p')))"
proof (intro conjI impI)
  assume "strikes (keys inp) pl p"
  from struck_update [OF this, of ids vis st]
  show "case predatorUpdate inp ids pl vis p st of
         (gone, p', st') \<Rightarrow> health p' = health p - 1 \<and> fleeing p' \<and> gone = (health p \<le> 1)"
    by (simp split: prod.splits)
next
  assume "struckEachFrame fs p st \<and> 1 \<le> health p \<and> int (length fs) \<le> health p"
  then have "struckEachFrame fs p st" "1 \<le> health p" "int (length fs) \<le> health p"
    by simp_all
  then show "case predatorRun fs p st of
         (gone, p', st') \<Rightarrow>
           health p' = health p - int (length fs) \<and>
           gone = (fs \<noteq> [] \<and> int (length fs) = health p) \<and>
           (fs = [] \<or> fleeing p')"
    by (rule struck_run)
qed

lemma swing_simps: "delta swing = 1 / 2" "key_space (keys swing) = True"
  by (simp_all add: swing_def idleFrame_def)

lemmas strike_eval = predatorUpdate_def playerStrike_def releaseOnScare_def swing_simps
  playerAt_def newPredator_def spawnPosition_def fleeFromPlayer_def settle_def
  collidesWithCoop_def coopPosition_def vec_defs Let_def sqrt_cmp

lemma first_swing:
  "strikes (keys swing) (Some (playerAt 0)) dogAt1"
  "predatorUpdate swing [] (Some (playerAt 0)) None dogAt1 st = (False, struckDog 2 4, st)"
  by (simp_all add: strikes_def dogAt1_def struckDog_def strike_eval)

lemma second_swing:
  "strikes (keys swing) (Some (playerAt 3)) (struckDog 2 4)"
  "predatorUpdate swing [] (Some (playerAt 3)) None (struckDog 2 4) st = (False, struckDog 1 7, st)"
  by (simp_all add: strikes_def struckDog_def strike_eval)

lemma third_swing:
  "strikes (keys swing) (Some (playerAt 6)) (struckDog 1 7)"
  "predatorUpdate swing [] (Some (playerAt 6)) None (struckDog 1 7) st = (True, struckDog 0 7, st)"
  by (simp_all add: strikes_def struckDog_def strike_eval)

theorem strike_every_frame_witness:
  "strikes (keys swing) (Some (playerAt 0)) dogAt1 \<and> health dogAt1 = 3 \<and>
   health (fst (snd (predatorUpdate swing [] (Some (playerAt 0)) None dogAt1 (birds freshGame)))) = 2 \<and>
   struckEachFrame threeSwings dogAt1 (birds freshGame) \<and>
   fst (predatorRun threeSwings dogAt1 (birds freshGame)) \<and>
   health (fst (snd (predatorRun threeSwings dogAt1 (birds freshGame)))) = 0"
proof -
  have h: "health dogAt1 = 3"
    by (simp add: dogAt1_def newPredator_def)
  have s: "struckEachFrame threeSwings dogAt1 (birds freshGame)"
    by (simp add: threeSwings_def first_swing second_swing third_swing)
  have n: "int (length threeSwings) = 3" "threeSwings \<noteq> []"
    by (simp_all add: threeSwings_def)
  show ?thesis
    using strike_every_frame [of swing "Some (playerAt 0)" dogAt1 "[]" None "birds freshGame"
            threeSwings]
      first_swing(1) h s n
    by (simp split: prod.splits)
qed

subsection \<open>The hawk's stalk\<close>























lemma bird0: "birds freshGame 0 = newBird Chicken (-25) (-25) 0 0"
  by (simp add: freshGame_def startGame_def initialState_def Let_def)


lemmas stalk_eval = predatorUpdate_def playerStrike_def hunt_def stalk_def settle_def
  idleFrame_simps Let_def











subsection \<open>The out-of-bounds grace\<close>

lemma scaredByPredators_keeps:
  "outOfBoundsTimer (scaredByPredators preds b) = outOfBoundsTimer b \<and>
   hasEscaped (scaredByPredators preds b) = hasEscaped b \<and>
   onVisitorHead (scaredByPredators preds b) = onVisitorHead b \<and>
   position (scaredByPredators preds b) = position b \<and>
   speed (scaredByPredators preds b) = speed b"
  by (induction preds) (simp_all add: Let_def)

lemma coopVisiting_keeps:
  "outOfBoundsTimer (coopVisiting dt rnd b) = outOfBoundsTimer b \<and>
   hasEscaped (coopVisiting dt rnd b) = hasEscaped b \<and>
   onVisitorHead (coopVisiting dt rnd b) = onVisitorHead b"
  by (simp add: coopVisiting_def Let_def split: coopVisit.split)

lemma wandering_keeps:
  "outOfBoundsTimer (wandering dt ra rt c b) = outOfBoundsTimer b \<and>
   hasEscaped (wandering dt ra rt c b) = hasEscaped b \<and>
   onVisitorHead (wandering dt ra rt c b) = onVisitorHead b"
  by (simp add: wandering_def Let_def)

lemma behave_keeps:
  "outOfBoundsTimer (behave inp i vis corn b) = outOfBoundsTimer b \<and>
   hasEscaped (behave inp i vis corn b) = hasEscaped b \<and>
   onVisitorHead (behave inp i vis corn b) = onVisitorHead b"
  by (simp add: behave_def Let_def coopVisiting_keeps wandering_keeps split: option.split)

lemma locomotion_keeps:
  "outOfBoundsTimer (locomotion inp i pl preds vis piles b) = outOfBoundsTimer b \<and>
   hasEscaped (locomotion inp i pl preds vis piles b) = hasEscaped b \<and>
   onVisitorHead (locomotion inp i pl preds vis piles b) = onVisitorHead b"
  by (simp add: locomotion_def Let_def boundaryAvoidance_def coopCollision_def applyVelocity_def
        behave_keeps playerScare_def dangerCheck_def scaredByPredators_keeps split: option.split)

lemma grace_step:
  assumes "\<not> onVisitorHead b"
  shows "case birdStep inp i pl preds vis piles b of
     (r, b') \<Rightarrow>
       (insideBoundary (position (locomotion inp i pl preds vis piles b)) \<longrightarrow>
          \<not> r \<and> inBounds b' \<and> outOfBoundsTimer b' = 0 \<and> \<not> hasEscaped b') \<and>
       (\<not> insideBoundary (position (locomotion inp i pl preds vis piles b)) \<longrightarrow>
          \<not> inBounds b' \<and> outOfBoundsTimer b' = fadd (outOfBoundsTimer b) (delta inp) \<and>
          r = (20 \<le> fadd (outOfBoundsTimer b) (delta inp) \<and> \<not> hasEscaped b) \<and>
          hasEscaped b' = (hasEscaped b \<or> r))"
  using assms locomotion_keeps [of inp i pl preds vis piles b]
  by (simp add: birdStep_def checkBoundaries_def hardBoundary_def Let_def)

lemma grace_update:
  assumes "\<not> onVisitorHead (birds g i)"
  shows "case birdUpdate inp i g of
     (r, g') \<Rightarrow>
       (insideBoundary (position (moved inp i g)) \<longrightarrow>
          \<not> r \<and> inBounds (birds g' i) \<and> outOfBoundsTimer (birds g' i) = 0 \<and>
          \<not> hasEscaped (birds g' i) \<and> ranAway g' = ranAway g) \<and>
       (\<not> insideBoundary (position (moved inp i g)) \<longrightarrow>
          \<not> inBounds (birds g' i) \<and>
          outOfBoundsTimer (birds g' i) = fadd (outOfBoundsTimer (birds g i)) (delta inp) \<and>
          r = (20 \<le> fadd (outOfBoundsTimer (birds g i)) (delta inp) \<and> \<not> hasEscaped (birds g i)) \<and>
          hasEscaped (birds g' i) = (hasEscaped (birds g i) \<or> r) \<and>
          ranAway g' = ranAway g + (if r then 1 else 0))"
proof -
  obtain r b' where s:
    "birdStep inp i (thePlayer g) (predators g) (theVisitor g) (cornPiles g) (birds g i) = (r, b')"
    by (cases "birdStep inp i (thePlayer g) (predators g) (theVisitor g) (cornPiles g) (birds g i)")
  have u: "birdUpdate inp i g =
        (r, if r then g\<lparr>birds := (birds g)(i := b'), ranAway := ranAway g + 1\<rparr>
            else g\<lparr>birds := (birds g)(i := b')\<rparr>)"
    by (simp add: birdUpdate_def s Let_def)
  show ?thesis
    using grace_step [OF assms, of inp i "thePlayer g" "predators g" "theVisitor g" "cornPiles g"]
    unfolding u s moved_def by simp
qed

lemma perched_update: "onVisitorHead (birds g i) \<Longrightarrow> birdUpdate inp i g = (False, g)"
  by (simp add: birdUpdate_def birdStep_def Let_def)

lemma grace_run:
  assumes "outsideEachFrame i fs g"
  shows "length (birdRun i fs g) = length fs \<and>
         (hasEscaped (birds g i) \<or>
          list_all (\<lambda>t. t < 20) (accumulate (outOfBoundsTimer (birds g i)) (deltas fs)) \<longrightarrow>
            birdRun i fs g = replicate (length fs) (False, 0)) \<and>
         (\<not> hasEscaped (birds g i) \<longrightarrow>
            (\<forall>k < length fs.
               list_all (\<lambda>t. t < 20)
                 (take k (accumulate (outOfBoundsTimer (birds g i)) (deltas fs))) \<and>
               20 \<le> accumulate (outOfBoundsTimer (birds g i)) (deltas fs) ! k \<longrightarrow>
               birdRun i fs g = (replicate (length fs) (False, 0))[k := (True, 1)]))"
  using assms
proof (induction fs arbitrary: g)
  case Nil
  then show ?case by (simp add: deltas_def)
next
  case (Cons f rest)
  obtain inp world where f: "f = (inp, world)" by (cases f)
  obtain r g1 where u: "birdUpdate inp i (world g) = (r, g1)"
    by (cases "birdUpdate inp i (world g)")
  define T where "T = outOfBoundsTimer (birds g i)"
  define E where "E = hasEscaped (birds g i)"
  have off: "\<not> onVisitorHead (birds (world g) i)"
    and same: "outOfBoundsTimer (birds (world g) i) = T" "hasEscaped (birds (world g) i) = E"
    and out: "\<not> insideBoundary (position (moved inp i (world g)))"
    and more: "outsideEachFrame i rest g1"
    using Cons.prems f u by (simp_all add: T_def E_def)
  have step: "outOfBoundsTimer (birds g1 i) = fadd T (delta inp)"
    "r = (20 \<le> fadd T (delta inp) \<and> \<not> E)"
    "hasEscaped (birds g1 i) = (E \<or> r)"
    "ranAway g1 - ranAway (world g) = (if r then 1 else 0)"
    using grace_update [OF off, of inp] u out same by simp_all
  have ds: "accumulate T (deltas (f # rest)) =
            fadd T (delta inp) # accumulate (fadd T (delta inp)) (deltas rest)"
    by (simp add: deltas_def f)
  have run: "birdRun i (f # rest) g = (r, if r then 1 else 0) # birdRun i rest g1"
    using u f step(4) by simp
  note ih = Cons.IH [OF more, unfolded step(1) step(3)]
  show ?case
    unfolding T_def [symmetric] E_def [symmetric] ds run
  proof (intro conjI impI allI)
    show "length ((r, if r then 1 else 0) # birdRun i rest g1) = length (f # rest)"
      using ih by simp
  next
    assume a: "E \<or> list_all (\<lambda>t. t < 20)
                     (fadd T (delta inp) # accumulate (fadd T (delta inp)) (deltas rest))"
    then have nr: "\<not> r" using step(2) by auto
    have "(E \<or> r) \<or> list_all (\<lambda>t. t < 20) (accumulate (fadd T (delta inp)) (deltas rest))"
      using a by auto
    with ih have "birdRun i rest g1 = replicate (length rest) (False, 0)" by blast
    then show "(r, if r then 1 else 0) # birdRun i rest g1 = replicate (length (f # rest)) (False, 0)"
      using nr by simp
  next
    fix k
    assume ne: "\<not> E" and k: "k < length (f # rest)"
      and a: "list_all (\<lambda>t. t < 20)
                (take k (fadd T (delta inp) # accumulate (fadd T (delta inp)) (deltas rest))) \<and>
              20 \<le> (fadd T (delta inp) # accumulate (fadd T (delta inp)) (deltas rest)) ! k"
    show "(r, if r then 1 else 0) # birdRun i rest g1 =
          (replicate (length (f # rest)) (False, 0))[k := (True, 1)]"
    proof (cases k)
      case 0
      then have r: "r" using a ne step(2) by simp
      then have "birdRun i rest g1 = replicate (length rest) (False, 0)"
        using ih by blast
      then show ?thesis using r 0 by simp
    next
      case (Suc j)
      then have nr: "\<not> r" using a step(2) by auto
      have "j < length rest" using k Suc by simp
      moreover have "list_all (\<lambda>t. t < 20)
                (take j (accumulate (fadd T (delta inp)) (deltas rest))) \<and>
              20 \<le> accumulate (fadd T (delta inp)) (deltas rest) ! j"
        using a Suc by simp
      ultimately have "birdRun i rest g1 = (replicate (length rest) (False, 0))[j := (True, 1)]"
        using ih ne nr by blast
      then show ?thesis using nr Suc by simp
    qed
  qed
qed

text \<open>
  C3. The out-of-bounds grace. An update of a bird that is not on the visitor's head
  moves the bird and then tests the boundary. Inside: the grace timer and the escape flag
  are reset, the bird is kept and \<^verbatim>\<open>gameState.ranAway\<close> is left alone. Outside: the delta
  is added to the timer (an addition of doubles); the update marks the bird escaped,
  raises \<^verbatim>\<open>gameState.ranAway\<close> by one and returns \<^verbatim>\<open>true\<close> exactly when the timer has
  reached 20 and the bird was not yet marked; otherwise the flag and the counter stay. A
  bird on the visitor's head is neither moved nor tested: its update returns \<^verbatim>\<open>false\<close>
  and changes nothing. Over a run of updates that find the bird outside, starting with
  the timer at 0 and the flag clear: as long as the timer stays below 20 no update
  returns \<^verbatim>\<open>true\<close> or touches the counter; and if update number \<open>k\<close> is the first to
  bring the timer to 20, then that update, and no other of the run, returns \<^verbatim>\<open>true\<close> and
  raises the counter, by one.
\<close>

theorem out_of_bounds_grace:
  "(\<not> onVisitorHead (birds g i) \<longrightarrow>
      (case birdUpdate inp i g of
         (r, g') \<Rightarrow>
           (insideBoundary (position (moved inp i g)) \<longrightarrow>
              \<not> r \<and> inBounds (birds g' i) \<and> outOfBoundsTimer (birds g' i) = 0 \<and>
              \<not> hasEscaped (birds g' i) \<and> ranAway g' = ranAway g) \<and>
           (\<not> insideBoundary (position (moved inp i g)) \<longrightarrow>
              \<not> inBounds (birds g' i) \<and>
              outOfBoundsTimer (birds g' i) = fadd (outOfBoundsTimer (birds g i)) (delta inp) \<and>
              r = (20 \<le> fadd (outOfBoundsTimer (birds g i)) (delta inp) \<and>
                   \<not> hasEscaped (birds g i)) \<and>
              hasEscaped (birds g' i) = (hasEscaped (birds g i) \<or> r) \<and>
              ranAway g' = ranAway g + (if r then 1 else 0)))) \<and>
   (onVisitorHead (birds g i) \<longrightarrow> birdUpdate inp i g = (False, g)) \<and>
   (outOfBoundsTimer (birds g i) = 0 \<and> \<not> hasEscaped (birds g i) \<and> outsideEachFrame i fs g \<longrightarrow>
      length (birdRun i fs g) = length fs \<and>
      (list_all (\<lambda>t. t < 20) (accumulate 0 (deltas fs)) \<longrightarrow>
         birdRun i fs g = replicate (length fs) (False, 0)) \<and>
      (\<forall>k < length fs.
         list_all (\<lambda>t. t < 20) (take k (accumulate 0 (deltas fs))) \<and>
         20 \<le> accumulate 0 (deltas fs) ! k \<longrightarrow>
         birdRun i fs g = (replicate (length fs) (False, 0))[k := (True, 1)]))"
proof (intro conjI impI)
  assume "onVisitorHead (birds g i)"
  then show "birdUpdate inp i g = (False, g)"
    by (rule perched_update)
next
  assume "\<not> onVisitorHead (birds g i)"
  then show "case birdUpdate inp i g of
         (r, g') \<Rightarrow>
           (insideBoundary (position (moved inp i g)) \<longrightarrow>
              \<not> r \<and> inBounds (birds g' i) \<and> outOfBoundsTimer (birds g' i) = 0 \<and>
              \<not> hasEscaped (birds g' i) \<and> ranAway g' = ranAway g) \<and>
           (\<not> insideBoundary (position (moved inp i g)) \<longrightarrow>
              \<not> inBounds (birds g' i) \<and>
              outOfBoundsTimer (birds g' i) = fadd (outOfBoundsTimer (birds g i)) (delta inp) \<and>
              r = (20 \<le> fadd (outOfBoundsTimer (birds g i)) (delta inp) \<and>
                   \<not> hasEscaped (birds g i)) \<and>
              hasEscaped (birds g' i) = (hasEscaped (birds g i) \<or> r) \<and>
              ranAway g' = ranAway g + (if r then 1 else 0))"
    by (rule grace_update)
next
  assume a: "outOfBoundsTimer (birds g i) = 0 \<and> \<not> hasEscaped (birds g i) \<and> outsideEachFrame i fs g"
  then have out: "outsideEachFrame i fs g" by simp
  note r = grace_run [OF out]
  show "length (birdRun i fs g) = length fs"
    using r by simp
  show "list_all (\<lambda>t. t < 20) (accumulate 0 (deltas fs)) \<Longrightarrow>
        birdRun i fs g = replicate (length fs) (False, 0)"
    using r a by simp
  show "\<forall>k < length fs.
         list_all (\<lambda>t. t < 20) (take k (accumulate 0 (deltas fs))) \<and>
         20 \<le> accumulate 0 (deltas fs) ! k \<longrightarrow>
         birdRun i fs g = (replicate (length fs) (False, 0))[k := (True, 1)]"
    using r a by simp
qed

lemmas bird_eval = birdStep_def locomotion_def dangerCheck_def playerScare_def
  findNearestCorn_def attractedNow_def behave_def applyVelocity_def coopCollision_def
  collidesWithCoop_def coopPosition_def boundaryAvoidance_def checkBoundaries_def
  insideBoundary_def hardBoundary_def newBird_def idleFrame_simps vec_defs sqrt_cmp Let_def

lemma eights: "fadd 0 8 = 8" "fadd 8 8 = 16" "fadd 16 8 = 24" "fadd 24 8 = 32"
  using fadd_exact [of 0 8 8 0] fadd_exact [of 8 8 16 0] fadd_exact [of 16 8 24 0]
    fadd_exact [of 24 8 32 0]
  by simp_all

lemma cornGame_simps:
  "thePlayer (cornGame x b n) = thePlayer freshGame" "predators (cornGame x b n) = []"
  "theVisitor (cornGame x b n) = None"
  "cornPiles (cornGame x b n) = [\<lparr>location = Vector3 x 0 0, timer = 13\<rparr>]"
  "birds (cornGame x b n) 0 = b" "ranAway (cornGame x b n) = n"
  "(cornGame x b n)\<lparr>birds := (birds (cornGame x b n))(0 := b')\<rparr> = cornGame x b' n"
  "(cornGame x b n)\<lparr>ranAway := m\<rparr> = cornGame x b m"
  by (simp_all add: cornGame_def freshGame_def startGame_def initialState_def Let_def)

lemma stray_steps:
  "birdStep (idleFrame 8) 0 (thePlayer freshGame) [] None [\<lparr>location = Vector3 30 0 0, timer = 13\<rparr>]
     (newBird Chicken 30 0 0 0) = (False, strayBird 8 False)"
  "birdStep (idleFrame 8) 0 (thePlayer freshGame) [] None [\<lparr>location = Vector3 30 0 0, timer = 13\<rparr>]
     (strayBird 8 False) = (False, strayBird 16 False)"
  "birdStep (idleFrame 8) 0 (thePlayer freshGame) [] None [\<lparr>location = Vector3 30 0 0, timer = 13\<rparr>]
     (strayBird 16 False) = (True, strayBird 24 True)"
  "birdStep (idleFrame 8) 0 (thePlayer freshGame) [] None [\<lparr>location = Vector3 30 0 0, timer = 13\<rparr>]
     (strayBird 24 True) = (False, strayBird 32 True)"
  by (simp_all add: strayBird_def bird_eval freshGame_simps eights)

lemma stray_updates:
  "birdUpdate (idleFrame 8) 0 (cornGame 30 (newBird Chicken 30 0 0 0) 0)
     = (False, cornGame 30 (strayBird 8 False) 0)"
  "birdUpdate (idleFrame 8) 0 (cornGame 30 (strayBird 8 False) 0)
     = (False, cornGame 30 (strayBird 16 False) 0)"
  "birdUpdate (idleFrame 8) 0 (cornGame 30 (strayBird 16 False) 0)
     = (True, cornGame 30 (strayBird 24 True) 1)"
  "birdUpdate (idleFrame 8) 0 (cornGame 30 (strayBird 24 True) 1)
     = (False, cornGame 30 (strayBird 32 True) 1)"
  by (simp_all add: birdUpdate_def cornGame_simps stray_steps)

lemma stray_outside:
  "\<not> insideBoundary (position (moved (idleFrame 8) 0 (cornGame 30 (newBird Chicken 30 0 0 0) n)))"
  "\<not> insideBoundary (position (moved (idleFrame 8) 0 (cornGame 30 (strayBird t e) n)))"
  by (simp_all add: moved_def cornGame_simps strayBird_def bird_eval freshGame_simps)

lemma stray_fields:
  "onVisitorHead (newBird Chicken 30 0 0 0) = False" "onVisitorHead (strayBird t e) = False"
  "outOfBoundsTimer (newBird Chicken 30 0 0 0) = 0" "outOfBoundsTimer (strayBird t e) = t"
  "hasEscaped (newBird Chicken 30 0 0 0) = False" "hasEscaped (strayBird t e) = e"
  by (simp_all add: strayBird_def newBird_def)

lemma home_inside:
  "\<not> onVisitorHead (birds (cornGame 0 homeBird 0) 0)"
  "outOfBoundsTimer (birds (cornGame 0 homeBird 0) 0) = 5"
  "insideBoundary (position (moved (idleFrame 8) 0 (cornGame 0 homeBird 0)))"
  by (simp_all add: moved_def cornGame_simps homeBird_def bird_eval freshGame_simps)

lemma stray_times: "accumulate 0 (deltas [cornFrame, cornFrame, cornFrame, cornFrame]) = [8, 16, 24, 32]"
  by (simp add: deltas_def cornFrame_def idleFrame_simps eights)

theorem out_of_bounds_grace_witness:
  "\<not> onVisitorHead (birds (cornGame 0 homeBird 0) 0) \<and>
   outOfBoundsTimer (birds (cornGame 0 homeBird 0) 0) = 5 \<and>
   insideBoundary (position (moved (idleFrame 8) 0 (cornGame 0 homeBird 0))) \<and>
   outOfBoundsTimer (birds (snd (birdUpdate (idleFrame 8) 0 (cornGame 0 homeBird 0))) 0) = 0 \<and>
   ranAway (snd (birdUpdate (idleFrame 8) 0 (cornGame 0 homeBird 0))) = 0 \<and>
   outsideEachFrame 0 [cornFrame, cornFrame, cornFrame, cornFrame]
     (cornGame 30 (newBird Chicken 30 0 0 0) 0) \<and>
   accumulate 0 (deltas [cornFrame, cornFrame, cornFrame, cornFrame]) = [8, 16, 24, 32] \<and>
   birdRun 0 [cornFrame, cornFrame, cornFrame, cornFrame] (cornGame 30 (newBird Chicken 30 0 0 0) 0)
     = [(False, 0), (False, 0), (True, 1), (False, 0)]"
proof -
  let ?g = "cornGame 30 (newBird Chicken 30 0 0 0) 0"
  let ?fs = "[cornFrame, cornFrame, cornFrame, cornFrame]"
  have o: "outsideEachFrame 0 ?fs ?g"
    by (simp add: cornFrame_def stray_updates stray_outside stray_fields cornGame_simps)
  have pre: "outOfBoundsTimer (birds ?g 0) = 0 \<and> \<not> hasEscaped (birds ?g 0) \<and> outsideEachFrame 0 ?fs ?g"
    using o by (simp add: cornGame_simps stray_fields)
  note t1 = out_of_bounds_grace [of "cornGame 0 homeBird 0" 0 "idleFrame 8", THEN conjunct1, THEN mp,
              OF home_inside(1)]
  note t3 = out_of_bounds_grace [where g = ?g and i = 0 and fs = ?fs, THEN conjunct2,
              THEN conjunct2, THEN mp, OF pre, THEN conjunct2, THEN conjunct2, THEN spec,
              of 2]
  have a: "outOfBoundsTimer (birds (snd (birdUpdate (idleFrame 8) 0 (cornGame 0 homeBird 0))) 0) = 0 \<and>
           ranAway (snd (birdUpdate (idleFrame 8) 0 (cornGame 0 homeBird 0))) = 0"
    using t1 home_inside(3) by (simp add: case_prod_beta cornGame_simps)
  have b: "birdRun 0 ?fs ?g = [(False, 0), (False, 0), (True, 1), (False, 0)]"
    using t3 by (simp add: stray_times eval_nat_numeral)
  show ?thesis
    using a b o home_inside stray_times by simp
qed

subsection \<open>The egg cycle\<close>













text \<open>
  A frame that leaves the session in progress has run the egg timers of lines 3948-3986
  on the egg state it found; any other frame has left the egg state alone. A frame leaves
  the session in progress exactly if it found it so and meets neither of the two end
  tests (the time is up; no bird is left after the birds' update).
\<close>

lemma started_updateWorld: "started (updateWorld inp g) = started g"
  using quiet_updateWorld [of g inp] by (simp add: quiet_def)

lemma started_updateBirds: "started (updateBirds inp g) = started g"
  using quiet_updateBirds [of g inp] by (simp add: quiet_def)

lemma started_tick: "started (tick inp g) = started g"
  using quiet_tick [of g inp] by (simp add: quiet_def)

lemma started_ends: "\<not> started (levelComplete g)" "\<not> started (gameOver g)"
  by (simp_all add: levelComplete_def gameOver_def addScore_def Let_def)



lemma frame_in_progress:
  "started (animate inp g) =
     (started g \<and>
      \<not> (maxGameTime g \<le> gameTime g + delta inp \<and> \<not> gameCompleted g) \<and>
      \<not> (chickens (updateBirds inp (tick inp g)) = [] \<and>
         ducks (updateBirds inp (tick inp g)) = [] \<and> \<not> gameCompleted g))"
proof -
  have t: "gameTime (tick inp g) = gameTime g + delta inp" "maxGameTime (tick inp g) = maxGameTime g"
    "gameCompleted (tick inp g) = gameCompleted g"
    by (simp_all add: tick_def survivalBonus_def addScore_def Let_def)
  have b: "gameCompleted (updateBirds inp (tick inp g)) = gameCompleted g"
    using quiet_updateBirds [of "tick inp g" inp] t(3) by (simp add: quiet_def)
  show ?thesis
    by (simp add: animate_def Let_def t b started_ends started_updateWorld started_updateBirds
          started_tick)
qed


























subsection \<open>The danger check\<close>

lemma scaredByPredators_first:
  "find (\<lambda>p. distanceTo (position b) (pposition p) < 8) preds = Some p \<Longrightarrow>
   scaredByPredators preds b = b\<lparr>scared := True, scaredTimer := 2, velocity := awayFrom (pposition p) 2 b\<rparr>"
proof (induction preds)
  case Nil
  then show ?case by simp
next
  case (Cons q preds)
  then show ?case by (auto simp: Let_def awayFrom_def)
qed

lemma scaredByPredators_none:
  "find (\<lambda>p. distanceTo (position b) (pposition p) < 8) preds = None \<Longrightarrow>
   scaredByPredators preds b = b"
  by (induction preds) (auto simp: Let_def)

lemma behave_cooldown:
  "scaredTimer b > 0 \<Longrightarrow> behave inp i vis corn b = b\<lparr>scaredTimer := scaredTimer b - delta inp\<rparr>"
  by (simp add: behave_def)

lemma after_behave:
  assumes "scared b" "0 < scaredTimer b"
  shows "boundaryAvoidance c (coopCollision (applyVelocity dt (behave inp i vis corn b)))
           = (coopCollision (applyVelocity dt (behave inp i vis corn b)))"
    "velocity (coopCollision (applyVelocity dt (behave inp i vis corn b))) = velocity b"
    "scared (coopCollision (applyVelocity dt (behave inp i vis corn b)))"
    "scaredTimer (coopCollision (applyVelocity dt (behave inp i vis corn b))) = scaredTimer b - delta inp"
  using assms
  by (simp_all add: behave_cooldown boundaryAvoidance_def coopCollision_def applyVelocity_def Let_def)

lemma checkBoundaries_keeps:
  "velocity (snd (checkBoundaries dt b)) = velocity b"
  "scared (snd (checkBoundaries dt b)) = scared b"
  "scaredTimer (snd (checkBoundaries dt b)) = scaredTimer b"
  by (simp_all add: checkBoundaries_def hardBoundary_def Let_def)

lemma flee_step:
  assumes "\<not> onVisitorHead b"
    and "find (\<lambda>p. distanceTo (position b) (pposition p) < 8) preds = Some p"
  shows "scared (snd (birdStep inp i pl preds vis piles b)) \<and>
         (\<not> herds (keys inp) pl b \<longrightarrow>
            velocity (snd (birdStep inp i pl preds vis piles b)) = awayFrom (pposition p) 2 b \<and>
            scaredTimer (snd (birdStep inp i pl preds vis piles b)) = 2 - delta inp) \<and>
         (herds (keys inp) pl b \<longrightarrow>
            (\<exists>plr. pl = Some plr \<and>
               velocity (snd (birdStep inp i pl preds vis piles b)) = awayFrom (plposition plr) 1.5 b) \<and>
            scaredTimer (snd (birdStep inp i pl preds vis piles b)) = 1 - delta inp)"
proof -
  define b1 where "b1 = dangerCheck preds b"
  have b1: "b1 = b\<lparr>scared := True, scaredTimer := 2, velocity := awayFrom (pposition p) 2 b\<rparr>"
    using scaredByPredators_first [of "b\<lparr>scared := False\<rparr>" preds p] assms(2)
    by (simp add: b1_def dangerCheck_def awayFrom_def)
  define b2 where "b2 = playerScare (keys inp) pl b1"
  have b2: "scared b2" "0 < scaredTimer b2"
    "\<not> herds (keys inp) pl b \<Longrightarrow> velocity b2 = awayFrom (pposition p) 2 b \<and> scaredTimer b2 = 2"
    "herds (keys inp) pl b \<Longrightarrow>
       (\<exists>plr. pl = Some plr \<and> velocity b2 = awayFrom (plposition plr) 1.5 b) \<and> scaredTimer b2 = 1"
    by (auto simp: b2_def b1 playerScare_def herds_def awayFrom_def Let_def split: option.splits)
  have step: "birdStep inp i pl preds vis piles b
      = checkBoundaries (delta inp)
          (coopCollision (applyVelocity (delta inp) (behave inp i vis (findNearestCorn vis piles b2) b2)))"
    using assms(1) after_behave(1) [OF b2(1,2)]
    by (simp add: birdStep_def locomotion_def Let_def b1_def b2_def)
  show ?thesis
    unfolding step using b2 after_behave(2-4) [OF b2(1,2)]
    by (auto simp: checkBoundaries_keeps)
qed


lemma away_values:
  "awayFrom (pposition dogEast) 2 midBird = Vector3 (-4) 0 0"
  "awayFrom (pposition dogSouth) 2 midBird = Vector3 0 0 (-4)"
  "awayFrom (plposition herder) 1.5 midBird = Vector3 0 0 3"
  by (simp_all add: awayFrom_def dogEast_def dogSouth_def herder_def midBird_def newBird_def
        newPredator_def vec_defs sqrt_sq_eq [of 5] sqrt_sq_eq [of 3] sqrt_sq_eq [of 2])

lemma first_in_range:
  "find (\<lambda>p. distanceTo (position midBird) (pposition p) < 8) [dogEast, dogSouth] = Some dogEast"
  "distanceTo (position midBird) (pposition dogSouth) < distanceTo (position midBird) (pposition dogEast)"
  by (simp_all add: dogEast_def dogSouth_def midBird_def newBird_def newPredator_def vec_defs
        sqrt_cmp)

lemma herd_facts:
  "herds (keys herdFrame) (Some herder) midBird" "\<not> herds (keys (idleFrame dt)) pl midBird"
  "delta herdFrame = 1 / 10"
  by (simp_all add: herds_def herdFrame_def idleFrame_def herder_def midBird_def newBird_def
        vec_defs sqrt_cmp)

lemma midBird_fields:
  "onVisitorHead midBird = False" "scared midBird = False" "velocity midBird = Vector3 0 0 0"
  by (simp_all add: midBird_def newBird_def)

text \<open>
  C9 as stated fails in three ways. With two dogs in range the bird runs from the first of
  the roster (to the east, five units away), not from the nearest (to the south, three
  units away). A bird on the visitor's head does not react at all. And when the player
  herds the bird in the same frame, the bird runs from the player at 1.5 times its speed.
\<close>

theorem flees_from_first_not_nearest:
  "distanceTo (position midBird) (pposition dogSouth) < distanceTo (position midBird) (pposition dogEast) \<and>
   distanceTo (position midBird) (pposition dogEast) < 8 \<and>
   velocity (snd (birdStep (idleFrame (1 / 10)) 0 None [dogEast, dogSouth] None [] midBird))
     = Vector3 (-4) 0 0 \<and>
   awayFrom (pposition dogSouth) 2 midBird = Vector3 0 0 (-4) \<and>
   birdStep (idleFrame (1 / 10)) 0 None [dogEast, dogSouth] None [] (midBird\<lparr>onVisitorHead := True\<rparr>)
     = (False, midBird\<lparr>onVisitorHead := True\<rparr>) \<and>
   scared (midBird\<lparr>onVisitorHead := True\<rparr>) = False \<and>
   velocity (snd (birdStep herdFrame 0 (Some herder) [dogEast, dogSouth] None [] midBird))
     = Vector3 0 0 3"
proof -
  have a: "velocity (snd (birdStep (idleFrame (1 / 10)) 0 None [dogEast, dogSouth] None [] midBird))
     = Vector3 (-4) 0 0"
    using flee_step [where b = midBird and preds = "[dogEast, dogSouth]" and p = dogEast
            and inp = "idleFrame (1 / 10)" and i = 0 and pl = None and vis = None and piles = "[]"]
      first_in_range(1) herd_facts(2) away_values(1) midBird_fields(1) by simp
  have b: "velocity (snd (birdStep herdFrame 0 (Some herder) [dogEast, dogSouth] None [] midBird))
     = Vector3 0 0 3"
    using flee_step [where b = midBird and preds = "[dogEast, dogSouth]" and p = dogEast
            and inp = herdFrame and i = 0 and pl = "Some herder" and vis = None and piles = "[]"]
      first_in_range(1) herd_facts(1) away_values(3) midBird_fields(1) by simp
  have c: "distanceTo (position midBird) (pposition dogEast) < 8"
    by (simp add: dogEast_def midBird_def newBird_def newPredator_def vec_defs sqrt_cmp)
  show ?thesis
    using a b c first_in_range(2) away_values(2) midBird_fields
    by (simp add: birdStep_def)
qed

text \<open>
  C9, amended. For every bird that is not on the visitor's head and has a predator closer
  than 8, the update leaves the bird scared; unless the player herds it in the same frame,
  its velocity is set directly away from the first predator of the roster that is closer
  than 8, at twice its speed, and the cooldown timer is set to 2 (and counted down by the
  frame's delta); if the player herds it, the velocity is directly away from the player at
  1.5 times its speed and the cooldown is 1. While the cooldown timer is positive the
  behaviour chain of the update only counts the timer down: the corn, coop-visit and
  wandering branches are not run, whether or not a predator is still in range.
\<close>

theorem danger_check_flee:
  assumes "\<not> onVisitorHead b"
    and "find (\<lambda>p. distanceTo (position b) (pposition p) < 8) preds = Some p"
  shows "scared (snd (birdStep inp i pl preds vis piles b)) \<and>
         (\<not> herds (keys inp) pl b \<longrightarrow>
            velocity (snd (birdStep inp i pl preds vis piles b)) = awayFrom (pposition p) 2 b \<and>
            scaredTimer (snd (birdStep inp i pl preds vis piles b)) = 2 - delta inp) \<and>
         (herds (keys inp) pl b \<longrightarrow>
            (\<exists>plr. pl = Some plr \<and>
               velocity (snd (birdStep inp i pl preds vis piles b)) = awayFrom (plposition plr) 1.5 b) \<and>
            scaredTimer (snd (birdStep inp i pl preds vis piles b)) = 1 - delta inp) \<and>
         (0 < scaredTimer c \<longrightarrow>
            behave inp i vis corn c = c\<lparr>scaredTimer := scaredTimer c - delta inp\<rparr>)"
  using flee_step [OF assms, of inp i pl vis piles] behave_cooldown [of c inp i vis corn]
  by blast

theorem danger_check_flee_witness:
  "\<not> onVisitorHead midBird \<and>
   find (\<lambda>p. distanceTo (position midBird) (pposition p) < 8) [dogEast, dogSouth] = Some dogEast \<and>
   \<not> herds (keys (idleFrame (1 / 10))) None midBird \<and>
   scared (snd (birdStep (idleFrame (1 / 10)) 0 None [dogEast, dogSouth] None [] midBird)) \<and>
   velocity (snd (birdStep (idleFrame (1 / 10)) 0 None [dogEast, dogSouth] None [] midBird))
     = Vector3 (-4) 0 0 \<and>
   scaredTimer (snd (birdStep (idleFrame (1 / 10)) 0 None [dogEast, dogSouth] None [] midBird))
     = 19 / 10 \<and>
   herds (keys herdFrame) (Some herder) midBird \<and>
   scaredTimer (snd (birdStep herdFrame 0 (Some herder) [dogEast, dogSouth] None [] midBird))
     = 9 / 10 \<and>
   behave (idleFrame (1 / 10)) 0 None None (midBird\<lparr>scaredTimer := 1\<rparr>)
     = midBird\<lparr>scaredTimer := 9 / 10\<rparr>"
proof -
  have n: "\<not> onVisitorHead midBird" by (simp add: midBird_fields)
  note t1 = danger_check_flee [OF n first_in_range(1), where inp = "idleFrame (1 / 10)"
              and i = 0 and pl = None and vis = None and piles = "[]"
              and c = "midBird\<lparr>scaredTimer := 1\<rparr>" and corn = None]
  note t2 = danger_check_flee [OF n first_in_range(1), where inp = herdFrame
              and i = 0 and pl = "Some herder" and vis = None and piles = "[]"
              and c = "midBird\<lparr>scaredTimer := 1\<rparr>" and corn = None]
  show ?thesis
    using t1 t2 n first_in_range(1) herd_facts away_values(1) idleFrame_simps(1) [of "1 / 10"]
    by simp
qed

subsection \<open>The four flags of a bird\<close>

lemma scaredByPredators_flags:
  "captured (scaredByPredators preds b) = captured b \<and>
   killed (scaredByPredators preds b) = killed b \<and>
   visitingCoop (scaredByPredators preds b) = visitingCoop b"
  by (induction preds) (simp_all add: Let_def)

lemma coopVisiting_flags:
  "captured (coopVisiting dt rnd b) = captured b \<and> killed (coopVisiting dt rnd b) = killed b"
  by (simp add: coopVisiting_def Let_def split: coopVisit.split)

lemma wandering_flags:
  "captured (wandering dt ra rt c b) = captured b \<and> killed (wandering dt ra rt c b) = killed b"
  by (simp add: wandering_def Let_def)

lemma behave_flags:
  "captured (behave inp i vis corn b) = captured b \<and> killed (behave inp i vis corn b) = killed b"
  by (simp add: behave_def Let_def coopVisiting_flags wandering_flags split: option.split)

lemma locomotion_flags:
  "captured (locomotion inp i pl preds vis piles b) = captured b \<and>
   killed (locomotion inp i pl preds vis piles b) = killed b"
  by (simp add: locomotion_def Let_def boundaryAvoidance_def coopCollision_def applyVelocity_def
        behave_flags playerScare_def dangerCheck_def scaredByPredators_flags split: option.split)

lemma checkBoundaries_flags:
  "captured (snd (checkBoundaries dt b)) = captured b"
  "killed (snd (checkBoundaries dt b)) = killed b"
  "onVisitorHead (snd (checkBoundaries dt b)) = onVisitorHead b"
  by (simp_all add: checkBoundaries_def hardBoundary_def Let_def)

lemma birdStep_flags:
  "captured (snd (birdStep inp i pl preds vis piles b)) = captured b \<and>
   killed (snd (birdStep inp i pl preds vis piles b)) = killed b \<and>
   onVisitorHead (snd (birdStep inp i pl preds vis piles b)) = onVisitorHead b"
  by (simp add: birdStep_def checkBoundaries_flags locomotion_flags locomotion_keeps)

lemma attractOne_guard:
  "attractOne gp rg rnd i v st = (v', st') \<Longrightarrow>
   captured (st' j) = captured (st j) \<and>
   (onVisitorHead (st' j) \<longrightarrow> onVisitorHead (st j) \<or> \<not> captured (st j))"
  by (auto simp: attractOne_def Let_def split: if_splits)

lemma attractLoop_guard:
  "attractLoop gp rg rnd ids v st = (v', st') \<Longrightarrow>
   captured (st' j) = captured (st j) \<and>
   (onVisitorHead (st' j) \<longrightarrow> onVisitorHead (st j) \<or> \<not> captured (st j))"
proof (induction ids arbitrary: v st)
  case Nil
  then show ?case by simp
next
  case (Cons i ids)
  obtain v1 st1 where one: "attractOne gp rg (rnd i) i v st = (v1, st1)"
    by (cases "attractOne gp rg (rnd i) i v st")
  have rest: "attractLoop gp rg rnd ids v1 st1 = (v', st')"
    using Cons.prems one by simp
  show ?case
    using attractOne_guard [OF one, of j] Cons.IH [OF rest] by auto
qed

lemma rideOnHead_flags:
  "captured (rideOnHead hp ids st j) = captured (st j) \<and>
   onVisitorHead (rideOnHead hp ids st j) = onVisitorHead (st j)"
  by (induction ids arbitrary: st) simp_all

lemma attractBirds_guard:
  assumes "attractBirds rnd ids v st = (v', st')"
  shows "captured (st' j) = captured (st j) \<and>
         (onVisitorHead (st' j) \<longrightarrow> onVisitorHead (st j) \<or> \<not> captured (st j))"
proof -
  obtain gp rg hp v1 st1 where
    loop: "attractLoop gp rg rnd ids v st = (v1, st1)"
    and res: "st' = rideOnHead hp (birdsOnHead v1) st1"
    using assms by (auto simp: attractBirds_def Let_def split: prod.splits)
  show ?thesis
    using attractLoop_guard [OF loop, of j] rideOnHead_flags [of hp "birdsOnHead v1" st1 j] res
    by simp
qed


lemma flags_before:
  "flagsSet (carriedBirds 0) = 1" "flagsSet (coopWalker x z) = 1" "flagsSet perchedBird = 1"
  by (simp_all add: flagsSet_def carriedBirds_def bird0 coopWalker_def perchedBird_def newBird_def)

lemma kill_keeps_captured:
  "flagsSet (snd (snd (predatorUpdate (idleFrame (1 / 10)) (chickens freshGame @ ducks freshGame)
       (thePlayer freshGame) None escapingDog carriedBirds)) 0) = 2"
  by (simp add: dog_update flagsSet_def) (simp add: carriedBirds_def bird0 newBird_def)

lemma dog_takes_walker:
  "flagsSet (snd (snd (predatorUpdate (idleFrame (1 / 10)) [0] None None dogBeside
       (storeWith (coopWalker (-19) (-19))))) 0) = 2"
  by (simp add: stalk_eval storeWith_def dogBeside_def coopWalker_def newPredator_def newBird_def
        flagsSet_def vec_defs sqrt_cmp)

lemma visitor_takes_walker:
  "flagsSet (snd (attractBirds (\<lambda>i. 0) [0] sittingVisitor (storeWith (coopWalker 0 1))) 0) = 2"
  "onVisitorHead (snd (attractBirds (\<lambda>i. 0) [0] sittingVisitor (storeWith (coopWalker 0 1))) 0)"
  by (simp_all add: attractBirds_def attractOne_def storeWith_def sittingVisitor_def newVisitor_def
        coopWalker_def newBird_def flagsSet_def vec_defs sqrt_cmp Let_def)

lemma hawk_takes_perched:
  "flagsSet (snd (snd (predatorUpdate (idleFrame 4) [0] None None hawkOverHead
       (storeWith perchedBird))) 0) = 2"
  using fadd_exact [of 9 4 13 0]
  by (simp add: stalk_eval storeWith_def hawkOverHead_def perchedBird_def newPredator_def
        newBird_def flagsSet_def vec_defs sqrt_cmp)

text \<open>
  C2 as stated fails. Each of the four birds below has one flag set before the call and
  two after it: the carried bird is marked killed while it stays captured; a dog captures
  a chicken that is visiting the coop; the visitor perches a chicken that is visiting the
  coop; a hawk captures a bird that sits on the visitor's head.
\<close>

theorem two_flags_at_once:
  "flagsSet (carriedBirds 0) = 1 \<and>
   flagsSet (snd (snd (predatorUpdate (idleFrame (1 / 10)) (chickens freshGame @ ducks freshGame)
       (thePlayer freshGame) None escapingDog carriedBirds)) 0) = 2 \<and>
   flagsSet (storeWith (coopWalker (-19) (-19)) 0) = 1 \<and>
   flagsSet (snd (snd (predatorUpdate (idleFrame (1 / 10)) [0] None None dogBeside
       (storeWith (coopWalker (-19) (-19))))) 0) = 2 \<and>
   flagsSet (storeWith (coopWalker 0 1) 0) = 1 \<and>
   flagsSet (snd (attractBirds (\<lambda>i. 0) [0] sittingVisitor (storeWith (coopWalker 0 1))) 0) = 2 \<and>
   flagsSet (storeWith perchedBird 0) = 1 \<and>
   flagsSet (snd (snd (predatorUpdate (idleFrame 4) [0] None None hawkOverHead
       (storeWith perchedBird))) 0) = 2"
  using flags_before kill_keeps_captured dog_takes_walker visitor_takes_walker(1)
    hawk_takes_perched
  by (simp add: storeWith_def)

text \<open>
  C2, amended. The per-frame updates keep these exclusions between the four flags, and
  only these. \<^verbatim>\<open>Visitor.attractBirds\<close> never changes \<^verbatim>\<open>captured\<close> and puts a bird on the
  visitor's head only if the bird is not captured. \<^verbatim>\<open>Bird.update\<close> never changes
  \<^verbatim>\<open>captured\<close>, \<^verbatim>\<open>killed\<close> or \<^verbatim>\<open>onVisitorHead\<close>, and changes nothing at all on a bird
  that is on the visitor's head, so a coop visit never starts on a perched bird.
\<close>

theorem flag_guards:
  "(attractBirds rnd ids v st = (v', st') \<longrightarrow>
      captured (st' j) = captured (st j) \<and>
      (onVisitorHead (st' j) \<and> \<not> onVisitorHead (st j) \<longrightarrow> \<not> captured (st' j))) \<and>
   captured (snd (birdStep inp i pl preds vis piles b)) = captured b \<and>
   killed (snd (birdStep inp i pl preds vis piles b)) = killed b \<and>
   onVisitorHead (snd (birdStep inp i pl preds vis piles b)) = onVisitorHead b \<and>
   (onVisitorHead b \<longrightarrow> birdStep inp i pl preds vis piles b = (False, b)) \<and>
   (visitingCoop (snd (birdStep inp i pl preds vis piles b)) \<and> \<not> visitingCoop b \<longrightarrow>
      \<not> onVisitorHead b)"
proof (intro conjI impI)
  assume a: "attractBirds rnd ids v st = (v', st')"
  show "captured (st' j) = captured (st j)"
    using attractBirds_guard [OF a, of j] by simp
  assume "onVisitorHead (st' j) \<and> \<not> onVisitorHead (st j)"
  then show "\<not> captured (st' j)"
    using attractBirds_guard [OF a, of j] by simp
next
  show "captured (snd (birdStep inp i pl preds vis piles b)) = captured b"
    "killed (snd (birdStep inp i pl preds vis piles b)) = killed b"
    "onVisitorHead (snd (birdStep inp i pl preds vis piles b)) = onVisitorHead b"
    using birdStep_flags [of inp i pl preds vis piles b] by simp_all
next
  assume "onVisitorHead b"
  then show "birdStep inp i pl preds vis piles b = (False, b)"
    by (simp add: birdStep_def)
next
  assume "visitingCoop (snd (birdStep inp i pl preds vis piles b)) \<and> \<not> visitingCoop b"
  then show "\<not> onVisitorHead b"
    by (auto simp: birdStep_def)
qed

theorem flag_guards_witness:
  "onVisitorHead (snd (attractBirds (\<lambda>i. 0) [0] sittingVisitor (storeWith (coopWalker 0 1))) 0) \<and>
   \<not> onVisitorHead (storeWith (coopWalker 0 1) 0) \<and>
   \<not> captured (snd (attractBirds (\<lambda>i. 0) [0] sittingVisitor (storeWith (coopWalker 0 1))) 0) \<and>
   onVisitorHead perchedBird \<and>
   birdStep (idleFrame 4) 0 None [] None [] perchedBird = (False, perchedBird)"
proof -
  let ?x = "attractBirds (\<lambda>i. 0) [0] sittingVisitor (storeWith (coopWalker 0 1))"
  have a: "?x = (fst ?x, snd ?x)" by simp
  have b: "\<not> onVisitorHead (storeWith (coopWalker 0 1) 0)" "onVisitorHead perchedBird"
    by (simp_all add: storeWith_def coopWalker_def perchedBird_def newBird_def)
  note t = flag_guards [where rnd = "\<lambda>i. 0" and ids = "[0]" and v = sittingVisitor
             and st = "storeWith (coopWalker 0 1)" and v' = "fst ?x" and st' = "snd ?x" and j = 0
             and inp = "idleFrame 4" and i = 0 and pl = None and preds = "[]" and vis = None
             and piles = "[]" and b = perchedBird]
  show ?thesis
    using t a b visitor_takes_walker(2) by auto
qed

end
